theory Spec2Isabelle
  imports Complex_Main "HOL-Library.Log_Nat"
begin

section \<open>photo-reducer: the incremental image reduction engine of \<open>src/cli.ts\<close>\<close>

text \<open>
  The development embeds the engine of \<open>cli.ts\<close>: the resize and quality planner
  (\<open>computeResize\<close>, \<open>clampQuality\<close>), the output committer (\<open>shrinkImage\<close>), the
  directory pass (\<open>processDirectory\<close>), the metadata decision (\<open>runBatchProcess\<close>,
  \<open>computeUpdatedLastProcessedAt\<close>) and the two drivers (the batch branch of
  \<open>validateAndExecute\<close> and the \<open>cycle\<close> closure of \<open>startWatchMode\<close>).

  Conventions of the model.
  \<^item> A JavaScript \<open>number\<close> is the real number the double denotes; pixel counts, byte
    counts and quality levels, which are integers that a double holds exactly, are \<open>int\<close> or
    \<open>nat\<close>. A product or a quotient of doubles is the exact result rounded to the nearest
    double (\<open>fl64\<close>). Infinities and NaN are not modelled: with a rate in the interval
    (0, 1], which \<open>validateRate\<close> enforces, no operation of the planner overflows.
  \<^item> A \<open>Date\<close> is its \<open>valueOf()\<close>, the milliseconds since the epoch, an \<open>int\<close>; the
    ISO string of the metadata record is identified with the instant it denotes
    (\<open>toISOString\<close> keeps the milliseconds, so the round trip through the file is exact).
  \<^item> \<open>T | undefined\<close> is \<open>T option\<close>.
  \<^item> An \<open>async\<close> function that touches the file system is a function from the file system
    to an outcome and the file system afterwards; a rejected promise is \<open>Inl\<close> of an error.
\<close>

subsection \<open>Numbers\<close>

text \<open>
  Rounding to the nearest double, ties to the even mantissa. Scaled by \<open>2 ^ 1074\<close>, the
  doubles are the integers below \<open>2 ^ 53\<close> (the subnormal numbers and the first binade) and
  the multiples \<open>m * 2 ^ q\<close> of a power of two with \<open>2 ^ 52 \<le> m < 2 ^ 53\<close>. So a scaled
  value \<open>s \<ge> 0\<close> is rounded on the grid of step \<open>2 ^ q\<close>, where \<open>q\<close> is \<open>0\<close> below \<open>2 ^ 53\<close>
  and grows by one with every binade above (\<open>bitlen n\<close> is the number of binary digits of
  \<open>n\<close>).
\<close>

definition roundTiesToEven :: "real \<Rightarrow> int" where
  "roundTiesToEven y =
     (let f = \<lfloor>y\<rfloor>; d = y - of_int f
      in if d < 1 / 2 then f else if 1 / 2 < d then f + 1 else if even f then f else f + 1)"

definition ulpExponent :: "real \<Rightarrow> nat" where
  "ulpExponent s = nat (bitlen \<lfloor>s\<rfloor> - 53)"

definition roundScaled :: "real \<Rightarrow> real" where
  "roundScaled s = of_int (roundTiesToEven (s / 2 ^ ulpExponent s)) * 2 ^ ulpExponent s"

text \<open>
  \<open>fl64 x\<close>: the double nearest to the real \<open>x\<close>. The product \<open>a * b\<close> and the quotient
  \<open>a / b\<close> of two doubles in the program are \<open>fl64\<close> of the exact product and quotient.
\<close>

definition fl64 :: "real \<Rightarrow> real" where
  "fl64 x = (if x < 0 then - (roundScaled (- x * 2 ^ 1074) / 2 ^ 1074)
             else roundScaled (x * 2 ^ 1074) / 2 ^ 1074)"

text \<open>
  \<open>Math.round\<close> of a double: the nearest integer, a tie going towards plus infinity. The
  result is exact.
\<close>

definition Math_round :: "real \<Rightarrow> int" where
  "Math_round x = \<lfloor>x + 1 / 2\<rfloor>"

text \<open>Truthiness of a \<open>number | undefined\<close>: \<open>undefined\<close> and \<open>0\<close> are falsy.\<close>

definition truthy :: "int option \<Rightarrow> bool" where
  "truthy v = (case v of None \<Rightarrow> False | Some n \<Rightarrow> n \<noteq> 0)"

subsection \<open>The resize planner (\<open>computeResize\<close>, \<open>clampQuality\<close>)\<close>

record resize =
  width :: int
  height :: int

text \<open>
  \<open>sourceWidth * rate\<close>, \<open>limitedWidth / sourceWidth\<close> and \<open>sourceHeight * appliedRate\<close> are
  double operations; \<open>Math.max\<close>, \<open>Math.min\<close> and \<open>Math.round\<close> are exact.
\<close>

definition computeResize :: "int option \<Rightarrow> int option \<Rightarrow> real \<Rightarrow> int option \<Rightarrow> resize option" where
  "computeResize sourceWidth sourceHeight rate maxOutputWidth =
     (if \<not> truthy sourceWidth \<or> \<not> truthy sourceHeight then None
      else
        let scaledWidth =
              max 1 (Math_round (fl64 (real_of_int (the sourceWidth) * rate)));
            limitedWidth = (if truthy maxOutputWidth then min scaledWidth (the maxOutputWidth)
                            else scaledWidth);
            appliedRate = fl64 (real_of_int limitedWidth / real_of_int (the sourceWidth));
            scaledHeight =
              max 1 (Math_round (fl64 (real_of_int (the sourceHeight) * appliedRate)))
        in Some \<lparr>width = limitedWidth, height = scaledHeight\<rparr>)"

definition clampQuality :: "real \<Rightarrow> int" where
  "clampQuality rate = max 30 (min 90 (Math_round (fl64 (rate * 100))))"

subsection \<open>The encoder pipeline built by \<open>shrinkImage\<close>\<close>

text \<open>
  What \<open>sharp(sourcePath).metadata()\<close> reports of a source: its pixel dimensions and its
  container format, each possibly \<open>undefined\<close>.
\<close>

record sharp_metadata =
  meta_width :: "int option"
  meta_height :: "int option"
  meta_format :: "string option"

text \<open>The option \<open>--png-format\<close>: \<open>"png" | "webp" | "avif"\<close>.\<close>

datatype png_format = PNG | WEBP | AVIF

text \<open>
  The output call made on the pipeline: \<open>jpeg({quality})\<close>, \<open>webp({quality})\<close>,
  \<open>avif({quality})\<close>, \<open>heif({quality})\<close>, or \<open>png({compressionLevel})\<close>. The source calls
  \<open>heif\<close> through \<open>?.\<close>; the method is taken to exist.
\<close>

datatype output_options =
    Jpeg int
  | Webp int
  | Avif int
  | Heif int
  | Png_compressionLevel int

text \<open>
  The \<open>switch (metadata.format)\<close> of \<open>shrinkImage\<close>: \<open>None\<close> when no case matches and no
  output call is made.
\<close>

definition outputFor :: "string option \<Rightarrow> png_format \<Rightarrow> int \<Rightarrow> output_options option" where
  "outputFor fmt pngFormat quality =
     (if fmt = Some ''jpeg'' \<or> fmt = Some ''jpg'' then Some (Jpeg quality)
      else if fmt = Some ''webp'' then Some (Webp quality)
      else if fmt = Some ''png'' then
        (if pngFormat = WEBP then Some (Webp quality)
         else if pngFormat = AVIF then Some (Avif quality)
         else Some (Png_compressionLevel 9))
      else if fmt = Some ''avif'' then Some (Avif quality)
      else if fmt = Some ''heif'' then Some (Heif quality)
      else None)"

text \<open>
  The pipeline handed to \<open>toFile\<close>: the optional \<open>resize({width, height})\<close> call and the
  optional output call.
\<close>

record pipeline =
  resizeCall :: "(int option \<times> int option) option"
  outputCall :: "output_options option"

definition buildPipeline :: "sharp_metadata \<Rightarrow> real \<Rightarrow> int option \<Rightarrow> png_format \<Rightarrow> pipeline" where
  "buildPipeline metadata rate maxOutputWidth pngFormat =
     (let resize = computeResize (meta_width metadata) (meta_height metadata) rate maxOutputWidth;
          w = map_option width resize;
          h = map_option height resize;
          quality = clampQuality rate
      in \<lparr>resizeCall = (if truthy w \<or> truthy h then Some (w, h) else None),
          outputCall = outputFor (meta_format metadata) pngFormat quality\<rparr>)"

subsection \<open>Output paths (\<open>getOutputPaths\<close>)\<close>

text \<open>
  Paths are strings with \<open>/\<close> as separator. \<open>extname\<close> follows \<open>path.extname\<close> on the path of
  a file (no trailing separator): the extension starts at the last dot of the last segment,
  and is empty when there is no dot, when that dot opens the segment, or when the segment
  is \<open>..\<close>.
\<close>

definition lastSegment :: "string \<Rightarrow> string" where
  "lastSegment p = rev (takeWhile (\<lambda>c. c \<noteq> CHR ''/'') (rev p))"

definition extname :: "string \<Rightarrow> string" where
  "extname p =
     (let seg = lastSegment p;
          afterDot = rev (takeWhile (\<lambda>c. c \<noteq> CHR ''.'') (rev seg))
      in if CHR ''.'' \<notin> set seg then []
         else if length afterDot + 1 = length seg then []
         else if seg = ''..'' then []
         else CHR ''.'' # afterDot)"

text \<open>\<open>toLowerCase\<close> on the ASCII letters, which is all the comparison with \<open>.png\<close> sees.\<close>

definition toLowerCase_char :: "char \<Rightarrow> char" where
  "toLowerCase_char c =
     (case map_of (zip ''ABCDEFGHIJKLMNOPQRSTUVWXYZ'' ''abcdefghijklmnopqrstuvwxyz'') c of
        None \<Rightarrow> c
      | Some l \<Rightarrow> l)"

definition toLowerCase :: "string \<Rightarrow> string" where
  "toLowerCase s = map toLowerCase_char s"

record output_paths =
  primaryRelativePath :: string
  fallbackRelativePath :: string

definition getOutputPaths :: "string \<Rightarrow> png_format \<Rightarrow> output_paths" where
  "getOutputPaths relativePath pngFormat =
     (let ext = toLowerCase (extname relativePath);
          base = take (length relativePath - length ext) relativePath;
          fallbackRelativePath = relativePath
      in if ext = ''.png'' \<and> pngFormat = WEBP then
           \<lparr>primaryRelativePath = base @ ''.webp'', fallbackRelativePath = fallbackRelativePath\<rparr>
         else if ext = ''.png'' \<and> pngFormat = AVIF then
           \<lparr>primaryRelativePath = base @ ''.avif'', fallbackRelativePath = fallbackRelativePath\<rparr>
         else
           \<lparr>primaryRelativePath = relativePath, fallbackRelativePath = fallbackRelativePath\<rparr>)"

text \<open>\<open>path.join(dir, relative)\<close> for a directory without trailing separator.\<close>

definition path_join :: "string \<Rightarrow> string \<Rightarrow> string" where
  "path_join dir relative = dir @ ''/'' @ relative"

subsection \<open>The file system and the effects of one pass\<close>

text \<open>
  The file system maps a path to the node stored there: whether it is a regular file, its
  bytes and its modification time. Directories are not tracked: \<open>ensureDir\<close> changes nothing
  the model records.
\<close>

type_synonym path = string
type_synonym bytes = "nat list"
type_synonym instant = int

record node =
  regular :: bool
  content :: bytes
  modified :: instant

type_synonym filesystem = "path \<Rightarrow> node option"

text \<open>
  The I/O calls of a pass, by their place in the source. \<open>StatEntry\<close> is the \<open>stat\<close> at the
  head of the loop of \<open>processDirectory\<close>; the next thirteen are the calls of \<open>shrinkImage\<close>
  in program order; the last two are \<open>readMetadata\<close> and \<open>writeMetadata\<close>. Two library
  calls are split where a failure leaves different things behind. \<open>fs.copyFile\<close> fails
  either before it has opened the destination (\<open>CopyOriginal\<close>) or after (\<open>CopyData\<close>),
  and then removes the destination. \<open>move\<close> of \<open>fs-extra\<close> with \<open>overwrite\<close> checks its
  paths (\<open>MoveTmp\<close>), removes the destination (\<open>RemoveTarget\<close>) and then renames
  (\<open>RenameTmp\<close>).
\<close>

datatype io_step =
    StatEntry
  | EnsureTargetDir
  | EnsureFallbackDir
  | StatOriginal
  | ReadImageMetadata
  | WriteTmp
  | StatTmp
  | RemoveTmp
  | CopyOriginal
  | CopyData
  | StatFallback
  | MoveTmp
  | RemoveTarget
  | RenameTmp
  | ReadMetadataFile
  | WriteMetadataFile

text \<open>
  A rejected promise: the path does not exist (\<open>ENOENT\<close>), \<open>move\<close> was given one path twice,
  the codec rejected the image, or the call failed for a reason the model does not track
  (permissions, a full disk, a missing parent, a corrupt metadata file).
\<close>

datatype error =
    ENOENT path
  | SamePath path
  | CodecFailure path
  | IOFailure io_step path

text \<open>
  The surroundings of a pass. \<open>fault step file\<close> says that the call \<open>step\<close>, made while the
  source file \<open>file\<close> is processed, fails for an untracked reason. \<open>probe\<close> and \<open>render\<close> are
  the codec (\<open>sharp\<close>): the metadata of an image, and the bytes a pipeline produces from it;
  \<open>None\<close> is a rejection. \<open>partialOutput\<close> is what a failed \<open>toFile\<close> leaves at its output
  path: nothing, or a file with these bytes. \<open>clock\<close> is the reading of \<open>new Date()\<close>
  during the pass, which also stamps the files the pass writes.
\<close>

record env =
  fault :: "io_step \<Rightarrow> path \<Rightarrow> bool"
  probe :: "bytes \<Rightarrow> sharp_metadata option"
  render :: "bytes \<Rightarrow> pipeline \<Rightarrow> bytes option"
  partialOutput :: "bytes option"
  clock :: instant

type_synonym 'a io = "filesystem \<Rightarrow> (error + 'a) \<times> filesystem"

definition io_return :: "'a \<Rightarrow> 'a io" where
  "io_return a fs = (Inr a, fs)"

definition io_throw :: "error \<Rightarrow> 'a io" where
  "io_throw e fs = (Inl e, fs)"

text \<open>\<open>await m\<close> followed by the rest of the function: a rejection skips the rest.\<close>

definition io_bind :: "'a io \<Rightarrow> ('a \<Rightarrow> 'b io) \<Rightarrow> 'b io" where
  "io_bind m f fs = (case m fs of (Inl e, fs') \<Rightarrow> (Inl e, fs') | (Inr a, fs') \<Rightarrow> f a fs')"

definition guarded :: "env \<Rightarrow> io_step \<Rightarrow> path \<Rightarrow> 'a io \<Rightarrow> 'a io" where
  "guarded env step file m =
     (if fault env step file then io_throw (IOFailure step file) else m)"

text \<open>
  What \<open>stat\<close> resolves to, as far as the program reads it: \<open>isFile()\<close>, \<open>size\<close> (here
  \<open>byteSize\<close>) and \<open>mtime\<close>.
\<close>

record stats =
  isFile :: bool
  byteSize :: nat
  mtime :: instant

text \<open>\<open>fs.promises.stat(p)\<close>, made as call \<open>step\<close> while \<open>file\<close> is processed.\<close>

definition stat :: "env \<Rightarrow> io_step \<Rightarrow> path \<Rightarrow> path \<Rightarrow> stats io" where
  "stat env step file p =
     guarded env step file (\<lambda>fs.
       case fs p of
         None \<Rightarrow> (Inl (ENOENT p), fs)
       | Some n \<Rightarrow>
           (Inr \<lparr>isFile = regular n, byteSize = length (content n), mtime = modified n\<rparr>, fs))"

text \<open>
  \<open>fsExtra.ensureDir(path.dirname(...))\<close>, of the target path or of the fallback path as
  \<open>step\<close> says.
\<close>

definition ensureDir :: "env \<Rightarrow> io_step \<Rightarrow> path \<Rightarrow> unit io" where
  "ensureDir env step file = guarded env step file (io_return ())"

text \<open>\<open>sharp(sourcePath).metadata()\<close>.\<close>

definition readImageMetadata :: "env \<Rightarrow> path \<Rightarrow> sharp_metadata io" where
  "readImageMetadata env sourcePath =
     guarded env ReadImageMetadata sourcePath (\<lambda>fs.
       case fs sourcePath of
         None \<Rightarrow> (Inl (ENOENT sourcePath), fs)
       | Some n \<Rightarrow>
           (case probe env (content n) of
              None \<Rightarrow> (Inl (CodecFailure sourcePath), fs)
            | Some metadata \<Rightarrow> (Inr metadata, fs)))"

text \<open>
  \<open>pipeline.toFile(tmpPath)\<close>: decode the source, run the pipeline, write the result. A
  call that fails once the source is open may leave a partial file at its output path.
\<close>

definition afterFailedWrite :: "env \<Rightarrow> path \<Rightarrow> filesystem \<Rightarrow> filesystem" where
  "afterFailedWrite env p fs =
     (case partialOutput env of
        None \<Rightarrow> fs
      | Some b \<Rightarrow> fs(p \<mapsto> \<lparr>regular = True, content = b, modified = clock env\<rparr>))"

definition toFile :: "env \<Rightarrow> path \<Rightarrow> pipeline \<Rightarrow> path \<Rightarrow> unit io" where
  "toFile env sourcePath pl tmpPath fs =
     (if fault env WriteTmp sourcePath then
        (Inl (IOFailure WriteTmp sourcePath), afterFailedWrite env tmpPath fs)
      else
        case fs sourcePath of
          None \<Rightarrow> (Inl (ENOENT sourcePath), fs)
        | Some n \<Rightarrow>
            (case render env (content n) pl of
               None \<Rightarrow> (Inl (CodecFailure sourcePath), afterFailedWrite env tmpPath fs)
             | Some out \<Rightarrow>
                 (Inr (),
                  fs(tmpPath \<mapsto> \<lparr>regular = True, content = out, modified = clock env\<rparr>))))"

text \<open>\<open>fsExtra.remove(p)\<close>: no error when nothing is there.\<close>

definition remove :: "env \<Rightarrow> path \<Rightarrow> path \<Rightarrow> unit io" where
  "remove env file p =
     guarded env RemoveTmp file (\<lambda>fs. (Inr (), fs(p := None)))"

text \<open>
  \<open>fsExtra.copyFile(src, dest)\<close>, which is \<open>fs.copyFile\<close>: the bytes of \<open>src\<close> at \<open>dest\<close>,
  stamped now; copying a file onto itself leaves it as it is. A copy that fails after the
  destination was opened removes the destination.
\<close>

definition copyFile :: "env \<Rightarrow> path \<Rightarrow> path \<Rightarrow> path \<Rightarrow> unit io" where
  "copyFile env file src dest =
     guarded env CopyOriginal file (\<lambda>fs.
       case fs src of
         None \<Rightarrow> (Inl (ENOENT src), fs)
       | Some n \<Rightarrow>
           if src = dest then (Inr (), fs)
           else if fault env CopyData file then
             (Inl (IOFailure CopyData file), fs(dest := None))
           else (Inr (), fs(dest \<mapsto> n\<lparr>modified := clock env\<rparr>)))"

text \<open>
  \<open>fsExtra.move(src, dest, {overwrite: true})\<close>: \<open>checkPaths\<close> reads \<open>src\<close> and refuses one
  path given twice; then \<open>remove(dest)\<close>; then \<open>fs.rename(src, dest)\<close>, after which the node
  of \<open>src\<close> is at \<open>dest\<close> and \<open>src\<close> is gone. A rename that fails comes after the removal,
  so it leaves \<open>dest\<close> removed and \<open>src\<close> in place. (The two paths of \<open>shrinkImage\<close> lie in
  one directory, so the copy across devices that \<open>move\<close> falls back to does not occur.)
\<close>

definition move :: "env \<Rightarrow> path \<Rightarrow> path \<Rightarrow> path \<Rightarrow> unit io" where
  "move env file src dest =
     guarded env MoveTmp file (\<lambda>fs.
       case fs src of
         None \<Rightarrow> (Inl (ENOENT src), fs)
       | Some n \<Rightarrow>
           if src = dest then (Inl (SamePath src), fs)
           else if fault env RemoveTarget file then
             (Inl (IOFailure RemoveTarget file), fs)
           else if fault env RenameTmp file then
             (Inl (IOFailure RenameTmp file), fs(dest := None))
           else (Inr (), (fs(src := None))(dest \<mapsto> n)))"

subsection \<open>The output committer (\<open>shrinkImage\<close>)\<close>

record shrink_result =
  originalSize :: nat
  optimizedSize :: nat
  writtenPath :: path

definition shrinkImage ::
  "env \<Rightarrow> path \<Rightarrow> path \<Rightarrow> path \<Rightarrow> real \<Rightarrow> int option \<Rightarrow> png_format \<Rightarrow> shrink_result io" where
  "shrinkImage env sourcePath targetPath fallbackTargetPath rate maxOutputWidth pngFormat =
     io_bind (ensureDir env EnsureTargetDir sourcePath) (\<lambda>_.
     io_bind (ensureDir env EnsureFallbackDir sourcePath) (\<lambda>_.
     io_bind (stat env StatOriginal sourcePath sourcePath) (\<lambda>originalStats.
     io_bind (readImageMetadata env sourcePath) (\<lambda>metadata.
       let pl = buildPipeline metadata rate maxOutputWidth pngFormat;
           tmpPath = targetPath @ ''.tmp''
       in
     io_bind (toFile env sourcePath pl tmpPath) (\<lambda>_.
     io_bind (stat env StatTmp sourcePath tmpPath) (\<lambda>optimizedStats.
       if byteSize optimizedStats \<ge> byteSize originalStats then
         io_bind (remove env sourcePath tmpPath) (\<lambda>_.
         io_bind (copyFile env sourcePath sourcePath fallbackTargetPath) (\<lambda>_.
         io_bind (stat env StatFallback sourcePath fallbackTargetPath) (\<lambda>fallbackStats.
         io_return \<lparr>originalSize = byteSize originalStats,
                    optimizedSize = byteSize fallbackStats,
                    writtenPath = fallbackTargetPath\<rparr>)))
       else
         io_bind (move env sourcePath tmpPath targetPath) (\<lambda>_.
         io_return \<lparr>originalSize = byteSize originalStats,
                    optimizedSize = byteSize optimizedStats,
                    writtenPath = targetPath\<rparr>)))))))"

subsection \<open>The baseline (\<open>determineSince\<close>, \<open>maxDate\<close>, \<open>computeUpdatedLastProcessedAt\<close>)\<close>

definition determineSince :: "instant \<Rightarrow> instant option \<Rightarrow> instant" where
  "determineSince recordedAt override = (case override of Some t \<Rightarrow> t | None \<Rightarrow> recordedAt)"

definition maxDate :: "instant \<Rightarrow> instant \<Rightarrow> instant" where
  "maxDate a b = (if a > b then a else b)"

definition computeUpdatedLastProcessedAt ::
  "instant \<Rightarrow> instant \<Rightarrow> nat \<Rightarrow> instant option \<Rightarrow> bool \<Rightarrow> instant" where
  "computeUpdatedLastProcessedAt recordedAt latestProcessedAt processedCount sinceOverride
       shouldWriteMetadata =
     (if \<not> shouldWriteMetadata then recordedAt
      else if processedCount = 0 then
        (case sinceOverride of Some t \<Rightarrow> t | None \<Rightarrow> recordedAt)
      else maxDate recordedAt latestProcessedAt)"

subsection \<open>One pass over the directory (\<open>processDirectory\<close>)\<close>

text \<open>
  The lines the pass prints for a file: the success line of \<open>console.log\<close> with the result
  of \<open>shrinkImage\<close>, or the error line of \<open>console.error\<close> with the error caught. The start
  and summary lines are not modelled.
\<close>

datatype report =
    Processed path shrink_result
  | Failed path error

fun reportedFile :: "report \<Rightarrow> path" where
  "reportedFile (Processed relative r) = relative"
| "reportedFile (Failed relative e) = relative"

text \<open>
  What the loop accumulates: the two fields \<open>processDirectory\<close> returns, and the lines
  printed so far.
\<close>

record directory_result =
  latestProcessedAt :: instant
  processedCount :: nat
  reports :: "report list"

text \<open>
  The \<open>for\<close> loop over the entries that \<open>fast-glob\<close> lists. An entry is given by its path
  relative to \<open>sourceDir\<close>: \<open>fast-glob\<close> returns \<open>path_join sourceDir relative\<close>, which
  \<open>path.relative\<close> takes back to \<open>relative\<close>. The \<open>stat\<close> at the head of the loop stands
  outside the \<open>try\<close>, so its rejection ends the loop; a rejection of \<open>shrinkImage\<close> is caught
  and the loop goes on.
\<close>

fun processEntries ::
  "env \<Rightarrow> path \<Rightarrow> path \<Rightarrow> instant \<Rightarrow> real \<Rightarrow> int option \<Rightarrow> png_format \<Rightarrow> path list \<Rightarrow>
   directory_result \<Rightarrow> directory_result io" where
  "processEntries env sourceDir outputDir sinceDate rate maxOutputWidth pngFormat [] acc =
     io_return acc"
| "processEntries env sourceDir outputDir sinceDate rate maxOutputWidth pngFormat
       (relative # rest) acc =
     (let filePath = path_join sourceDir relative in
      io_bind (stat env StatEntry filePath filePath) (\<lambda>stats.
        if \<not> isFile stats then
          processEntries env sourceDir outputDir sinceDate rate maxOutputWidth pngFormat rest acc
        else if mtime stats \<le> sinceDate then
          processEntries env sourceDir outputDir sinceDate rate maxOutputWidth pngFormat rest acc
        else
          let out = getOutputPaths relative pngFormat;
              destination = path_join outputDir (primaryRelativePath out);
              fallbackDestination = path_join outputDir (fallbackRelativePath out)
          in (\<lambda>fs.
               case shrinkImage env filePath destination fallbackDestination rate
                      maxOutputWidth pngFormat fs of
                 (Inr result, fs') \<Rightarrow>
                   processEntries env sourceDir outputDir sinceDate rate maxOutputWidth pngFormat
                     rest
                     (acc\<lparr>processedCount := processedCount acc + 1,
                          latestProcessedAt :=
                            (if mtime stats > latestProcessedAt acc then mtime stats
                             else latestProcessedAt acc),
                          reports := reports acc @ [Processed relative result]\<rparr>)
                     fs'
               | (Inl e, fs') \<Rightarrow>
                   processEntries env sourceDir outputDir sinceDate rate maxOutputWidth pngFormat
                     rest (acc\<lparr>reports := reports acc @ [Failed relative e]\<rparr>) fs')))"

definition processDirectory ::
  "env \<Rightarrow> path \<Rightarrow> path \<Rightarrow> instant \<Rightarrow> real \<Rightarrow> int option \<Rightarrow> png_format \<Rightarrow> path list \<Rightarrow>
   directory_result io" where
  "processDirectory env sourceDir outputDir sinceDate rate maxOutputWidth pngFormat entries =
     processEntries env sourceDir outputDir sinceDate rate maxOutputWidth pngFormat entries
       \<lparr>latestProcessedAt = sinceDate, processedCount = 0, reports = []\<rparr>"

subsection \<open>The metadata record (\<open>readMetadata\<close>, \<open>writeMetadata\<close>)\<close>

record MetadataRecord =
  lastProcessedAt :: instant
  lastRate :: real

text \<open>
  The state a cycle runs in: the files, the record held by the file \<open>.photo-reducer\<close> of
  the source directory (\<open>None\<close> when the file is absent), and the records written to it so
  far, the latest first.
\<close>

record world =
  files :: filesystem
  metadataFile :: "MetadataRecord option"
  metadataWrites :: "MetadataRecord list"

record metadata_result =
  recordRead :: MetadataRecord
  existed :: bool

text \<open>
  \<open>readMetadata\<close>: a missing file gives the default record, stamped now; a file that cannot
  be read or parsed rejects.
\<close>

definition readMetadata :: "env \<Rightarrow> path \<Rightarrow> world \<Rightarrow> error + metadata_result" where
  "readMetadata env metadataPath w =
     (if fault env ReadMetadataFile metadataPath then
        Inl (IOFailure ReadMetadataFile metadataPath)
      else
        case metadataFile w of
          Some r \<Rightarrow> Inr \<lparr>recordRead = r, existed = True\<rparr>
        | None \<Rightarrow>
            Inr \<lparr>recordRead = \<lparr>lastProcessedAt = clock env, lastRate = 9 / 10\<rparr>,
                 existed = False\<rparr>)"

definition writeMetadata ::
  "env \<Rightarrow> path \<Rightarrow> instant \<Rightarrow> real \<Rightarrow> world \<Rightarrow> (error + unit) \<times> world" where
  "writeMetadata env metadataPath processedAt rate w =
     (let payload = \<lparr>lastProcessedAt = processedAt, lastRate = rate\<rparr> in
      if fault env WriteMetadataFile metadataPath then
        (Inl (IOFailure WriteMetadataFile metadataPath), w)
      else
        (Inr (), w\<lparr>metadataFile := Some payload,
                   metadataWrites := payload # metadataWrites w\<rparr>))"

subsection \<open>One batch pass and its metadata decision (\<open>runBatchProcess\<close>)\<close>

record batch_result =
  processedTotal :: nat
  updatedLastProcessedAt :: instant
  shouldWriteMetadata :: bool

text \<open>
  \<open>runBatchProcess\<close>; \<open>processedTotal\<close> is the field \<open>processedCount\<close> of its result. Of
  the \<open>options\<close> only \<open>forceBaselineWrite\<close> is kept (\<open>logMode\<close> chooses log lines); \<open>entries\<close>
  is what \<open>fast-glob\<close> lists in this pass.
\<close>

definition runBatchProcess ::
  "env \<Rightarrow> path \<Rightarrow> path \<Rightarrow> real \<Rightarrow> int option \<Rightarrow> png_format \<Rightarrow> path \<Rightarrow> bool \<Rightarrow>
   instant option \<Rightarrow> path list \<Rightarrow> world \<Rightarrow> (error + batch_result) \<times> world" where
  "runBatchProcess env sourceDir outputDir rate maxOutputWidth pngFormat metadataPath
       forceBaselineWrite sinceOverride entries w =
     (case readMetadata env metadataPath w of
        Inl e \<Rightarrow> (Inl e, w)
      | Inr metadataResult \<Rightarrow>
          let recordedAt = lastProcessedAt (recordRead metadataResult);
              sinceDate = determineSince recordedAt sinceOverride
          in
          (case processDirectory env sourceDir outputDir sinceDate rate maxOutputWidth
                  pngFormat entries (files w) of
             (Inl e, fs') \<Rightarrow> (Inl e, w\<lparr>files := fs'\<rparr>)
           | (Inr result, fs') \<Rightarrow>
               let shouldWrite =
                     (processedCount result > 0 \<or> \<not> existed metadataResult \<or>
                      forceBaselineWrite);
                   updated =
                     computeUpdatedLastProcessedAt recordedAt (latestProcessedAt result)
                       (processedCount result) sinceOverride shouldWrite
               in (Inr \<lparr>processedTotal = processedCount result,
                        updatedLastProcessedAt = updated,
                        shouldWriteMetadata = shouldWrite\<rparr>,
                   w\<lparr>files := fs'\<rparr>)))"

subsection \<open>The drivers (\<open>validateAndExecute\<close>, \<open>startWatchMode\<close>)\<close>

text \<open>
  How \<open>validateAndExecute\<close> derives the override and the force flag from \<open>--from-now\<close> (with
  the reading of \<open>new Date()\<close> at startup) and the parsed \<open>--since\<close>.
\<close>

definition effectiveSinceOverride :: "bool \<Rightarrow> instant \<Rightarrow> instant option \<Rightarrow> instant option" where
  "effectiveSinceOverride fromNow now sinceOverride =
     (let fromNowOverride = (if fromNow then Some now else None)
      in case fromNowOverride of Some t \<Rightarrow> Some t | None \<Rightarrow> sinceOverride)"

definition forceBaselineWriteOf :: "bool \<Rightarrow> instant \<Rightarrow> bool" where
  "forceBaselineWriteOf fromNow now =
     (let fromNowOverride = (if fromNow then Some now else None)
      in fromNowOverride \<noteq> None)"

text \<open>The batch branch of \<open>validateAndExecute\<close>: one pass, then the write if it is due.\<close>

definition executeBatch ::
  "env \<Rightarrow> path \<Rightarrow> path \<Rightarrow> real \<Rightarrow> int option \<Rightarrow> png_format \<Rightarrow> path \<Rightarrow> bool \<Rightarrow>
   instant option \<Rightarrow> path list \<Rightarrow> world \<Rightarrow> (error + unit) \<times> world" where
  "executeBatch env sourceDir outputDir rate maxOutputWidth pngFormat metadataPath
       forceBaselineWrite sinceOverride entries w =
     (case runBatchProcess env sourceDir outputDir rate maxOutputWidth pngFormat metadataPath
             forceBaselineWrite sinceOverride entries w of
        (Inl e, w') \<Rightarrow> (Inl e, w')
      | (Inr result, w') \<Rightarrow>
          if shouldWriteMetadata result then
            writeMetadata env metadataPath (updatedLastProcessedAt result) rate w'
          else (Inr (), w'))"

text \<open>
  The mutable variables of \<open>startWatchMode\<close>, and its closure \<open>cycle\<close>: skipped while a cycle
  is running; an error of the pass or of the write is caught and logged, and the cycle
  ends with \<open>processing\<close> reset.
\<close>

record watch_state =
  processing :: bool
  sinceForWatch :: "instant option"

definition cycle ::
  "env \<Rightarrow> path \<Rightarrow> path \<Rightarrow> real \<Rightarrow> int option \<Rightarrow> png_format \<Rightarrow> path \<Rightarrow> bool \<Rightarrow>
   path list \<Rightarrow> watch_state \<times> world \<Rightarrow> watch_state \<times> world" where
  "cycle env sourceDir outputDir rate maxOutputWidth pngFormat metadataPath
       forceBaselineWrite entries sw =
     (let st = fst sw; w = snd sw in
      if processing st then (st, w)
      else
        case runBatchProcess env sourceDir outputDir rate maxOutputWidth pngFormat
               metadataPath forceBaselineWrite (sinceForWatch st) entries w of
          (Inl e, w') \<Rightarrow> (st\<lparr>processing := False\<rparr>, w')
        | (Inr result, w') \<Rightarrow>
            if shouldWriteMetadata result then
              (case writeMetadata env metadataPath (updatedLastProcessedAt result) rate w' of
                 (Inl e, w'') \<Rightarrow> (st\<lparr>processing := False\<rparr>, w'')
               | (Inr u, w'') \<Rightarrow>
                   (st\<lparr>processing := False,
                       sinceForWatch :=
                         (if sinceForWatch st \<noteq> None then Some (updatedLastProcessedAt result)
                          else sinceForWatch st)\<rparr>,
                    w''))
            else (st\<lparr>processing := False\<rparr>, w'))"

subsection \<open>Sample surroundings\<close>

text \<open>
  Concrete inputs on which the properties below are evaluated. In \<open>sample_env failing grows\<close>
  the calls listed in \<open>failing\<close> fail; every image is reported as 1000 by 800 pixels, a PNG
  when its first byte is 137 and a JPEG otherwise; the codec returns one byte more than
  the source when \<open>grows\<close> holds and the first byte of the source otherwise; a failed
  \<open>toFile\<close> leaves nothing; the clock reads 77.
\<close>

definition sample_env :: "io_step list \<Rightarrow> bool \<Rightarrow> env" where
  "sample_env failing grows =
     \<lparr>fault = (\<lambda>step file. step \<in> set failing),
      probe = (\<lambda>b. Some \<lparr>meta_width = Some 1000, meta_height = Some 800,
                          meta_format = Some (if take 1 b = [137] then ''png'' else ''jpeg'')\<rparr>),
      render = (\<lambda>b pl. Some (if grows then b @ [0] else take 1 b)),
      partialOutput = None,
      clock = 77\<rparr>"

definition sample_files :: filesystem where
  "sample_files =
     [''/in/a.jpg'' \<mapsto> \<lparr>regular = True, content = [1, 2, 3], modified = 5\<rparr>,
      ''/in/b.jpg'' \<mapsto> \<lparr>regular = True, content = [4, 5, 6, 7], modified = 9\<rparr>,
      ''/in/c.png'' \<mapsto> \<lparr>regular = True, content = [137, 80, 78, 71], modified = 12\<rparr>]"

text \<open>
  A world with the sample files and a given content of the metadata file, nothing written
  yet; and the variables of a watch that starts with a given override.
\<close>

definition sample_world :: "MetadataRecord option \<Rightarrow> world" where
  "sample_world stored =
     \<lparr>files = sample_files, metadataFile = stored, metadataWrites = []\<rparr>"

definition watch_start :: "instant option \<Rightarrow> watch_state" where
  "watch_start sinceOverride = \<lparr>processing = False, sinceForWatch = sinceOverride\<rparr>"

section \<open>Properties\<close>

subsection \<open>Rounding to a double\<close>














text \<open>
  A normal number is rounded at its own precision: when \<open>x * 2 ^ p\<close> lies in the binade
  from \<open>2 ^ 52\<close>, \<open>fl64 x\<close> is that value rounded to an integer, scaled back.
\<close>

lemma roundScaled_normal:
  assumes "2 ^ 52 \<le> y" "y < 2 ^ 53"
  shows "roundScaled (y * 2 ^ d) = of_int (roundTiesToEven y) * 2 ^ d"
proof -
  let ?s = "y * 2 ^ d"
  have lo: "(2::real) ^ (52 + d) \<le> ?s"
    unfolding power_add using assms(1) by (simp add: mult_right_mono)
  have hi: "?s < 2 ^ (53 + d)"
    unfolding power_add using assms(2) by (simp add: mult_strict_right_mono)
  from lo have "(2::int) ^ (52 + d) \<le> \<lfloor>?s\<rfloor>"
    by (metis le_floor_iff of_int_numeral of_int_power)
  then have "2 ^ (nat (int (53 + d)) - 1) \<le> \<lfloor>?s\<rfloor>"
    by (simp only: nat_int) simp
  then have ge: "int (53 + d) \<le> bitlen \<lfloor>?s\<rfloor>"
    by (simp only: bitlen_ge_iff_power) simp
  from hi have "\<lfloor>?s\<rfloor> < (2::int) ^ (53 + d)"
    by (metis floor_less_iff of_int_numeral of_int_power)
  then have "\<lfloor>?s\<rfloor> < 2 ^ nat (int (53 + d))"
    by (simp only: nat_int)
  then have "bitlen \<lfloor>?s\<rfloor> \<le> int (53 + d)"
    by (simp only: bitlen_le_iff_power) simp
  with ge have "bitlen \<lfloor>?s\<rfloor> = int (53 + d)" by simp
  then have q: "ulpExponent ?s = d"
    by (simp add: ulpExponent_def)
  show ?thesis
    by (simp add: roundScaled_def q)
qed

lemma fl64_normal:
  assumes "p \<le> 1074" "2 ^ 52 \<le> x * 2 ^ p" "x * 2 ^ p < 2 ^ 53"
  shows "fl64 x = of_int (roundTiesToEven (x * 2 ^ p)) / 2 ^ p"
proof -
  define d where "d = 1074 - p"
  have "0 < x * 2 ^ p"
    using assms(2) by (rule less_le_trans [rotated]) simp
  then have xpos: "\<not> x < 0"
    by (simp add: zero_less_mult_iff)
  have split: "(2::real) ^ 1074 = 2 ^ p * 2 ^ d"
    using assms(1) by (simp only: d_def power_add [symmetric]) simp
  have "fl64 x = roundScaled (x * 2 ^ p * 2 ^ d) / (2 ^ p * 2 ^ d)"
    using xpos by (simp only: fl64_def split if_False mult.assoc)
  also have "\<dots> = of_int (roundTiesToEven (x * 2 ^ p)) * 2 ^ d / (2 ^ p * 2 ^ d)"
    by (simp only: roundScaled_normal [OF assms(2,3)])
  also have "\<dots> = of_int (roundTiesToEven (x * 2 ^ p)) / 2 ^ p"
    by simp
  finally show ?thesis .
qed

lemmas round_eval = roundTiesToEven_def Math_round_def Let_def

subsection \<open>The resize planner\<close>







subsection \<open>The encoder pipeline\<close>

text \<open>
  Claim C10 (a PNG kept as PNG ignores the quality). When the source format is \<open>png\<close> and
  the PNG output format is \<open>png\<close>, the output call is \<open>png({compressionLevel: 9})\<close> whatever
  the rate; two rates that give the same resize plan give the same pipeline; and the
  quality can change the output call only for the formats \<open>jpeg\<close>, \<open>jpg\<close>, \<open>webp\<close>, \<open>avif\<close>
  and \<open>heif\<close>, and for \<open>png\<close> sent to \<open>webp\<close> or \<open>avif\<close>.
\<close>

theorem png_native_ignores_quality:
  "outputCall (buildPipeline \<lparr>meta_width = w, meta_height = h, meta_format = Some ''png''\<rparr>
       rate maxOutputWidth PNG) = Some (Png_compressionLevel 9) \<and>
   (computeResize w h rate maxOutputWidth = computeResize w h rate' maxOutputWidth \<longrightarrow>
      buildPipeline \<lparr>meta_width = w, meta_height = h, meta_format = Some ''png''\<rparr>
        rate maxOutputWidth PNG =
      buildPipeline \<lparr>meta_width = w, meta_height = h, meta_format = Some ''png''\<rparr>
        rate' maxOutputWidth PNG) \<and>
   (outputFor fmt pngFormat q \<noteq> outputFor fmt pngFormat q' \<longrightarrow>
      fmt \<in> {Some ''jpeg'', Some ''jpg'', Some ''webp'', Some ''avif'', Some ''heif''} \<or>
      (fmt = Some ''png'' \<and> pngFormat \<noteq> PNG))"
  by (auto simp: buildPipeline_def outputFor_def Let_def split: if_splits)

theorem png_native_ignores_quality_witness:
  "computeResize (Some 10) (Some 10) (1 / 2) None = computeResize (Some 10) (Some 10) (13 / 25) None \<and>
   buildPipeline \<lparr>meta_width = Some 10, meta_height = Some 10, meta_format = Some ''png''\<rparr>
     (1 / 2) None PNG =
   buildPipeline \<lparr>meta_width = Some 10, meta_height = Some 10, meta_format = Some ''png''\<rparr>
     (13 / 25) None PNG \<and>
   clampQuality (1 / 2) \<noteq> clampQuality (13 / 25) \<and>
   outputFor (Some ''jpeg'') PNG 50 \<noteq> outputFor (Some ''jpeg'') PNG 52"
proof -
  have plans: "computeResize (Some 10) (Some 10) (1 / 2) None = Some \<lparr>width = 5, height = 5\<rparr>"
    "computeResize (Some 10) (Some 10) (13 / 25) None = Some \<lparr>width = 5, height = 5\<rparr>"
    by (simp_all add: computeResize_def truthy_def fl64_normal [where p = 50]
        fl64_normal [where p = 53] round_eval)
  have qualities: "clampQuality (1 / 2) = 50" "clampQuality (13 / 25) = 52"
    by (simp_all add: clampQuality_def fl64_normal [where p = 47] round_eval)
  from png_native_ignores_quality
    [of "Some 10" "Some 10" "1 / 2" None "13 / 25" "Some ''jpeg''" PNG 50 52]
  show ?thesis
    by (simp add: plans qualities outputFor_def)
qed

subsection \<open>The steps of \<open>shrinkImage\<close>, read backwards from an outcome\<close>

lemma io_bind_Inr_iff:
  "io_bind m f fs = (Inr r, fs') \<longleftrightarrow> (\<exists>a fs1. m fs = (Inr a, fs1) \<and> f a fs1 = (Inr r, fs'))"
  by (auto simp: io_bind_def split: prod.splits sum.splits)

lemma io_bind_Inl_iff:
  "io_bind m f fs = (Inl e, fs') \<longleftrightarrow>
     m fs = (Inl e, fs') \<or> (\<exists>a fs1. m fs = (Inr a, fs1) \<and> f a fs1 = (Inl e, fs'))"
  by (auto simp: io_bind_def split: prod.splits sum.splits)

lemma io_if_iff:
  "(if c then m1 else m2) fs = r \<longleftrightarrow> c \<and> m1 fs = r \<or> \<not> c \<and> m2 fs = r"
  by simp

lemma io_return_iff: "io_return a fs = (x, fs') \<longleftrightarrow> x = Inr a \<and> fs' = fs"
  by (auto simp: io_return_def)

lemma ensureDir_Inr_iff:
  "ensureDir env step file fs = (Inr u, fs') \<longleftrightarrow> \<not> fault env step file \<and> fs' = fs"
  by (auto simp: ensureDir_def guarded_def io_return_def io_throw_def)

lemma ensureDir_Inl_iff:
  "ensureDir env step file fs = (Inl e, fs') \<longleftrightarrow>
     fault env step file \<and> e = IOFailure step file \<and> fs' = fs"
  by (auto simp: ensureDir_def guarded_def io_return_def io_throw_def)

lemma stat_Inr_iff:
  "stat env step file p fs = (Inr st, fs') \<longleftrightarrow>
     \<not> fault env step file \<and> fs' = fs \<and>
     (\<exists>n. fs p = Some n \<and>
          st = \<lparr>isFile = regular n, byteSize = length (content n), mtime = modified n\<rparr>)"
  by (auto simp: stat_def guarded_def io_throw_def split: option.splits)

lemma stat_Inl_iff:
  "stat env step file p fs = (Inl e, fs') \<longleftrightarrow>
     fs' = fs \<and>
     (fault env step file \<and> e = IOFailure step file \<or>
      \<not> fault env step file \<and> fs p = None \<and> e = ENOENT p)"
  by (auto simp: stat_def guarded_def io_throw_def split: option.splits)

lemma readImageMetadata_Inr_iff:
  "readImageMetadata env sourcePath fs = (Inr metadata, fs') \<longleftrightarrow>
     \<not> fault env ReadImageMetadata sourcePath \<and> fs' = fs \<and>
     (\<exists>n. fs sourcePath = Some n \<and> probe env (content n) = Some metadata)"
  by (auto simp: readImageMetadata_def guarded_def io_throw_def split: option.splits)

lemma readImageMetadata_Inl_iff:
  "readImageMetadata env sourcePath fs = (Inl e, fs') \<longleftrightarrow>
     fs' = fs \<and>
     (fault env ReadImageMetadata sourcePath \<and> e = IOFailure ReadImageMetadata sourcePath \<or>
      \<not> fault env ReadImageMetadata sourcePath \<and> fs sourcePath = None \<and>
        e = ENOENT sourcePath \<or>
      \<not> fault env ReadImageMetadata sourcePath \<and> e = CodecFailure sourcePath \<and>
        (\<exists>n. fs sourcePath = Some n \<and> probe env (content n) = None))"
  by (auto simp: readImageMetadata_def guarded_def io_throw_def split: option.splits)

lemma toFile_Inr_iff:
  "toFile env sourcePath pl tmpPath fs = (Inr u, fs') \<longleftrightarrow>
     \<not> fault env WriteTmp sourcePath \<and>
     (\<exists>n out. fs sourcePath = Some n \<and> render env (content n) pl = Some out \<and>
        fs' = fs(tmpPath \<mapsto> \<lparr>regular = True, content = out, modified = clock env\<rparr>))"
  by (auto simp: toFile_def split: option.splits)

lemma toFile_Inl_iff:
  "toFile env sourcePath pl tmpPath fs = (Inl e, fs') \<longleftrightarrow>
     fault env WriteTmp sourcePath \<and> e = IOFailure WriteTmp sourcePath \<and>
       fs' = afterFailedWrite env tmpPath fs \<or>
     \<not> fault env WriteTmp sourcePath \<and> fs sourcePath = None \<and> e = ENOENT sourcePath \<and>
       fs' = fs \<or>
     \<not> fault env WriteTmp sourcePath \<and> e = CodecFailure sourcePath \<and>
       fs' = afterFailedWrite env tmpPath fs \<and>
       (\<exists>n. fs sourcePath = Some n \<and> render env (content n) pl = None)"
  by (auto simp: toFile_def split: option.splits)

lemma afterFailedWrite_other: "p \<noteq> tmpPath \<Longrightarrow> afterFailedWrite env tmpPath fs p = fs p"
  by (simp add: afterFailedWrite_def split: option.splits)

lemma remove_Inr_iff:
  "remove env file p fs = (Inr u, fs') \<longleftrightarrow> \<not> fault env RemoveTmp file \<and> fs' = fs(p := None)"
  by (auto simp: remove_def guarded_def io_throw_def)

lemma remove_Inl_iff:
  "remove env file p fs = (Inl e, fs') \<longleftrightarrow>
     fault env RemoveTmp file \<and> e = IOFailure RemoveTmp file \<and> fs' = fs"
  by (auto simp: remove_def guarded_def io_throw_def)

lemma copyFile_Inr_iff:
  "copyFile env file src dest fs = (Inr u, fs') \<longleftrightarrow>
     \<not> fault env CopyOriginal file \<and> (src = dest \<or> \<not> fault env CopyData file) \<and>
     (\<exists>n. fs src = Some n \<and>
        fs' = (if src = dest then fs else fs(dest \<mapsto> n\<lparr>modified := clock env\<rparr>)))"
  by (auto simp: copyFile_def guarded_def io_throw_def split: option.splits)

lemma copyFile_Inl_iff:
  "copyFile env file src dest fs = (Inl e, fs') \<longleftrightarrow>
     fault env CopyOriginal file \<and> e = IOFailure CopyOriginal file \<and> fs' = fs \<or>
     \<not> fault env CopyOriginal file \<and> fs src = None \<and> e = ENOENT src \<and> fs' = fs \<or>
     \<not> fault env CopyOriginal file \<and> fs src \<noteq> None \<and> src \<noteq> dest \<and>
       fault env CopyData file \<and> e = IOFailure CopyData file \<and> fs' = fs(dest := None)"
  by (auto simp: copyFile_def guarded_def io_throw_def split: option.splits)

lemma move_Inr_iff:
  "move env file src dest fs = (Inr u, fs') \<longleftrightarrow>
     \<not> fault env MoveTmp file \<and> \<not> fault env RemoveTarget file \<and>
     \<not> fault env RenameTmp file \<and> src \<noteq> dest \<and>
     (\<exists>n. fs src = Some n \<and> fs' = (fs(src := None))(dest \<mapsto> n))"
  by (auto simp: move_def guarded_def io_throw_def split: option.splits)

lemma move_Inl_iff:
  "move env file src dest fs = (Inl e, fs') \<longleftrightarrow>
     fault env MoveTmp file \<and> e = IOFailure MoveTmp file \<and> fs' = fs \<or>
     \<not> fault env MoveTmp file \<and> fs src = None \<and> e = ENOENT src \<and> fs' = fs \<or>
     \<not> fault env MoveTmp file \<and> fs src \<noteq> None \<and> src = dest \<and> e = SamePath src \<and>
       fs' = fs \<or>
     \<not> fault env MoveTmp file \<and> fs src \<noteq> None \<and> src \<noteq> dest \<and>
       fault env RemoveTarget file \<and> e = IOFailure RemoveTarget file \<and> fs' = fs \<or>
     \<not> fault env MoveTmp file \<and> fs src \<noteq> None \<and> src \<noteq> dest \<and>
       \<not> fault env RemoveTarget file \<and> fault env RenameTmp file \<and>
       e = IOFailure RenameTmp file \<and> fs' = fs(dest := None)"
  by (auto simp: move_def guarded_def io_throw_def split: option.splits)

lemmas io_Inr_iffs = io_bind_Inr_iff io_return_iff ensureDir_Inr_iff stat_Inr_iff
  readImageMetadata_Inr_iff toFile_Inr_iff remove_Inr_iff copyFile_Inr_iff move_Inr_iff

lemmas io_Inl_iffs = io_bind_Inl_iff ensureDir_Inl_iff stat_Inl_iff
  readImageMetadata_Inl_iff toFile_Inl_iff remove_Inl_iff copyFile_Inl_iff move_Inl_iff

lemmas io_defs = io_bind_def io_return_def io_throw_def guarded_def stat_def ensureDir_def
  readImageMetadata_def toFile_def afterFailedWrite_def remove_def copyFile_def move_def

lemmas path_defs = path_join_def getOutputPaths_def extname_def lastSegment_def
  toLowerCase_def toLowerCase_char_def

subsection \<open>The output committer\<close>

text \<open>
  Claim C1 (size-regression guard). Whenever \<open>shrinkImage\<close> commits, the source existed, the
  codec produced a candidate from its bytes, and: if the candidate is at least as long as
  the original, the path written is the fallback path, the file there holds the bytes of
  the original, the candidate is discarded (it is gone from the temporary path and the
  primary target path is as it was before the call, when it is not the fallback path
  itself), and no other path is touched; if the candidate is strictly shorter, the path
  written is the primary target path, the file there holds the candidate, the temporary
  path is empty and no other path is touched, the fallback path included. The fallback
  path that \<open>getOutputPaths\<close> gives is the relative path of the original, unchanged.
\<close>

theorem shrinkImage_size_guard:
  "shrinkImage env sourcePath targetPath fallbackTargetPath rate maxOutputWidth pngFormat fs
     = (Inr res, fs') \<Longrightarrow>
   (\<exists>n metadata candidate.
      fs sourcePath = Some n \<and> probe env (content n) = Some metadata \<and>
      render env (content n) (buildPipeline metadata rate maxOutputWidth pngFormat)
        = Some candidate \<and>
      originalSize res = length (content n) \<and>
      (if length candidate \<ge> length (content n)
       then writtenPath res = fallbackTargetPath \<and>
            map_option content (fs' fallbackTargetPath) = Some (content n) \<and>
            optimizedSize res = length (content n) \<and>
            (fallbackTargetPath \<noteq> targetPath @ ''.tmp'' \<longrightarrow>
               fs' (targetPath @ ''.tmp'') = None) \<and>
            (targetPath \<noteq> fallbackTargetPath \<longrightarrow> fs' targetPath = fs targetPath) \<and>
            (\<forall>p. p \<noteq> fallbackTargetPath \<and> p \<noteq> targetPath @ ''.tmp'' \<longrightarrow> fs' p = fs p)
       else writtenPath res = targetPath \<and>
            map_option content (fs' targetPath) = Some candidate \<and>
            optimizedSize res = length candidate \<and>
            fs' (targetPath @ ''.tmp'') = None \<and>
            (\<forall>p. p \<noteq> targetPath \<and> p \<noteq> targetPath @ ''.tmp'' \<longrightarrow> fs' p = fs p))) \<and>
   fallbackRelativePath (getOutputPaths relativePath pngFormat) = relativePath"
  by (auto simp: shrinkImage_def io_Inr_iffs Let_def getOutputPaths_def split: if_splits)

theorem shrinkImage_size_guard_witness:
  "getOutputPaths ''c.png'' WEBP
   = \<lparr>primaryRelativePath = ''c.webp'', fallbackRelativePath = ''c.png''\<rparr> \<and>
   shrinkImage (sample_env [] True) ''/in/c.png'' ''/out/c.webp'' ''/out/c.png'' (1 / 2) None
     WEBP sample_files
   = (Inr \<lparr>originalSize = 4, optimizedSize = 4, writtenPath = ''/out/c.png''\<rparr>,
      sample_files(''/out/c.png'' \<mapsto>
        \<lparr>regular = True, content = [137, 80, 78, 71], modified = 77\<rparr>)) \<and>
   shrinkImage (sample_env [] False) ''/in/c.png'' ''/out/c.webp'' ''/out/c.png'' (1 / 2) None
     WEBP sample_files
   = (Inr \<lparr>originalSize = 4, optimizedSize = 1, writtenPath = ''/out/c.webp''\<rparr>,
      sample_files(''/out/c.webp'' \<mapsto> \<lparr>regular = True, content = [137], modified = 77\<rparr>))"
proof -
  have paths: "getOutputPaths ''c.png'' WEBP
      = \<lparr>primaryRelativePath = ''c.webp'', fallbackRelativePath = ''c.png''\<rparr>"
    by (simp add: path_defs Let_def)
  have grows:
    "shrinkImage (sample_env [] True) ''/in/c.png'' ''/out/c.webp'' ''/out/c.png'' (1 / 2) None
       WEBP sample_files
     = (Inr \<lparr>originalSize = 4, optimizedSize = 4, writtenPath = ''/out/c.png''\<rparr>,
        sample_files(''/out/c.png'' \<mapsto>
          \<lparr>regular = True, content = [137, 80, 78, 71], modified = 77\<rparr>))"
    by (simp add: shrinkImage_def io_defs sample_env_def sample_files_def Let_def fun_eq_iff)
  have shrinks:
    "shrinkImage (sample_env [] False) ''/in/c.png'' ''/out/c.webp'' ''/out/c.png'' (1 / 2) None
       WEBP sample_files
     = (Inr \<lparr>originalSize = 4, optimizedSize = 1, writtenPath = ''/out/c.webp''\<rparr>,
        sample_files(''/out/c.webp'' \<mapsto> \<lparr>regular = True, content = [137], modified = 77\<rparr>))"
    by (simp add: shrinkImage_def io_defs sample_env_def sample_files_def Let_def fun_eq_iff)
  from shrinkImage_size_guard [OF grows, of "''c.png''"]
       shrinkImage_size_guard [OF shrinks, of "''c.png''"] paths grows shrinks
  show ?thesis by simp
qed

text \<open>
  Claim C9 (what a failed commit leaves), as the code has it, for a source and a fallback
  path that are not the temporary path.

  \<^item> The error propagates: on a source that exists and that the codec reads and encodes,
    the first call of \<open>shrinkImage\<close> that fails decides the outcome, which is the error of
    that call, and the file system is left as the calls before it made it.
  \<^item> The error is a per-file error: when \<open>shrinkImage\<close> rejects for an entry of the pass,
    the loop of \<open>processDirectory\<close> prints the error line for that entry and goes on with
    the remaining entries, the counters as they were.
  \<^item> Whatever the error, the source file is as it was, with one exception: when the primary
    target is the source itself and the rename fails, \<open>move\<close> has removed the target
    before, and the source is gone.
  \<^item> Nothing cleans the temporary path on an error path. The candidate is still there when
    the \<open>stat\<close> of the temporary file, its removal, or the \<open>move\<close> (its check of the paths,
    its removal of the old target, its rename) fails. The temporary path is empty when the
    copy of the original or the \<open>stat\<close> of the copy fails, because the fallback branch
    removed the candidate first. A failed encoding leaves there what the encoder left; a
    failure before the encoding leaves the file system untouched.
\<close>

theorem shrinkImage_failure_effects:
  assumes tmp_source: "sourcePath \<noteq> targetPath @ ''.tmp''"
    and tmp_fallback: "fallbackTargetPath \<noteq> targetPath @ ''.tmp''"
  shows
   "(fs sourcePath = Some n \<and> probe env (content n) = Some metadata \<and>
     render env (content n) (buildPipeline metadata rate maxOutputWidth pngFormat)
       = Some candidate \<longrightarrow>
     shrinkImage env sourcePath targetPath fallbackTargetPath rate maxOutputWidth pngFormat fs =
       (let tmpPath = targetPath @ ''.tmp'';
            failed = (\<lambda>step after. (Inl (IOFailure step sourcePath), after));
            written =
              fs(tmpPath \<mapsto> \<lparr>regular = True, content = candidate, modified = clock env\<rparr>);
            removed = fs(tmpPath := None);
            copied = (if sourcePath = fallbackTargetPath then removed
                      else removed(fallbackTargetPath \<mapsto> n\<lparr>modified := clock env\<rparr>))
        in if fault env EnsureTargetDir sourcePath then failed EnsureTargetDir fs
           else if fault env EnsureFallbackDir sourcePath then failed EnsureFallbackDir fs
           else if fault env StatOriginal sourcePath then failed StatOriginal fs
           else if fault env ReadImageMetadata sourcePath then failed ReadImageMetadata fs
           else if fault env WriteTmp sourcePath
             then failed WriteTmp (afterFailedWrite env tmpPath fs)
           else if fault env StatTmp sourcePath then failed StatTmp written
           else if length candidate \<ge> length (content n) then
             if fault env RemoveTmp sourcePath then failed RemoveTmp written
             else if fault env CopyOriginal sourcePath then failed CopyOriginal removed
             else if sourcePath \<noteq> fallbackTargetPath \<and> fault env CopyData sourcePath
               then failed CopyData (removed(fallbackTargetPath := None))
             else if fault env StatFallback sourcePath then failed StatFallback copied
             else (Inr \<lparr>originalSize = length (content n),
                        optimizedSize = length (content n),
                        writtenPath = fallbackTargetPath\<rparr>, copied)
           else
             if fault env MoveTmp sourcePath then failed MoveTmp written
             else if fault env RemoveTarget sourcePath then failed RemoveTarget written
             else if fault env RenameTmp sourcePath
               then failed RenameTmp (written(targetPath := None))
             else (Inr \<lparr>originalSize = length (content n),
                        optimizedSize = length candidate,
                        writtenPath = targetPath\<rparr>,
                   removed(targetPath \<mapsto>
                     \<lparr>regular = True, content = candidate, modified = clock env\<rparr>)))) \<and>
    (\<forall>e fs'.
       shrinkImage env sourcePath targetPath fallbackTargetPath rate maxOutputWidth pngFormat fs
         = (Inl e, fs') \<longrightarrow>
       (sourcePath = targetPath \<and> e = IOFailure RenameTmp sourcePath \<longrightarrow>
          fs' sourcePath = None) \<and>
       (sourcePath \<noteq> targetPath \<or> e \<noteq> IOFailure RenameTmp sourcePath \<longrightarrow>
          fs' sourcePath = fs sourcePath) \<and>
       (if e \<in> {IOFailure StatTmp sourcePath, IOFailure RemoveTmp sourcePath,
                 IOFailure MoveTmp sourcePath, IOFailure RemoveTarget sourcePath,
                 IOFailure RenameTmp sourcePath}
        then \<exists>c. fs' (targetPath @ ''.tmp'')
               = Some \<lparr>regular = True, content = c, modified = clock env\<rparr>
        else if e \<in> {IOFailure CopyOriginal sourcePath, IOFailure CopyData sourcePath,
                      IOFailure StatFallback sourcePath}
        then fs' (targetPath @ ''.tmp'') = None
        else if e = IOFailure WriteTmp sourcePath
        then fs' = afterFailedWrite env (targetPath @ ''.tmp'') fs
        else if e = CodecFailure sourcePath
        then fs' = fs \<or> fs' = afterFailedWrite env (targetPath @ ''.tmp'') fs
        else fs' = fs)) \<and>
    (\<forall>e fs'.
       sourcePath = path_join sourceDir relative \<and>
       targetPath = path_join outputDir (primaryRelativePath (getOutputPaths relative pngFormat)) \<and>
       fallbackTargetPath
         = path_join outputDir (fallbackRelativePath (getOutputPaths relative pngFormat)) \<and>
       fs sourcePath = Some n \<and> regular n \<and> sinceDate < modified n \<and>
       \<not> fault env StatEntry sourcePath \<and>
       shrinkImage env sourcePath targetPath fallbackTargetPath rate maxOutputWidth pngFormat fs
         = (Inl e, fs') \<longrightarrow>
       processEntries env sourceDir outputDir sinceDate rate maxOutputWidth pngFormat
         (relative # rest) acc fs =
       processEntries env sourceDir outputDir sinceDate rate maxOutputWidth pngFormat
         rest (acc\<lparr>reports := reports acc @ [Failed relative e]\<rparr>) fs')"
    (is "(?given \<longrightarrow> ?outcome) \<and> (\<forall>e fs'. ?failure e fs' \<longrightarrow> ?effects e fs') \<and> ?caught")
proof (intro conjI)
  show "?given \<longrightarrow> ?outcome"
  proof
    assume given: ?given
    show ?outcome
    proof (cases "sourcePath = fallbackTargetPath")
      case True
      with given have "fs fallbackTargetPath = Some n" by simp
      with given tmp_fallback True show ?thesis
        by (simp add: shrinkImage_def io_bind_def io_return_def io_throw_def guarded_def
            stat_def ensureDir_def readImageMetadata_def toFile_def remove_def copyFile_def
            move_def Let_def)
    next
      case False
      with given tmp_source show ?thesis
        by (simp add: shrinkImage_def io_bind_def io_return_def io_throw_def guarded_def
            stat_def ensureDir_def readImageMetadata_def toFile_def remove_def copyFile_def
            move_def Let_def)
    qed
  qed
  show "\<forall>e fs'. ?failure e fs' \<longrightarrow> ?effects e fs'"
  proof (intro allI impI)
    fix e fs'
    assume "?failure e fs'"
    with tmp_source tmp_fallback show "?effects e fs'"
      unfolding shrinkImage_def Let_def
      apply (simp only: io_if_iff io_Inl_iffs io_Inr_iffs)
      apply (elim disjE conjE exE)
      apply (auto simp: afterFailedWrite_other split: if_splits)
      done
  qed
  show ?caught
    by (auto simp: Let_def io_bind_def stat_def guarded_def)
qed

theorem shrinkImage_failure_effects_witness:
  "shrinkImage (sample_env [CopyData] True) ''/in/a.jpg'' ''/out/a.jpg'' ''/out/a.jpg''
     (1 / 2) None PNG sample_files
   = (Inl (IOFailure CopyData ''/in/a.jpg''), sample_files) \<and>
   sample_files ''/out/a.jpg.tmp'' = None \<and>
   sample_files ''/in/a.jpg'' = Some \<lparr>regular = True, content = [1, 2, 3], modified = 5\<rparr> \<and>
   processDirectory (sample_env [CopyData] True) ''/in'' ''/out'' 0 (1 / 2) None PNG
     [''a.jpg''] sample_files
   = (Inr \<lparr>latestProcessedAt = 0, processedCount = 0,
            reports = [Failed ''a.jpg'' (IOFailure CopyData ''/in/a.jpg'')]\<rparr>,
      sample_files)"
proof -
  let ?env = "sample_env [CopyData] True"
  let ?n = "\<lparr>regular = True, content = [1, 2, 3], modified = 5\<rparr>"
  let ?metadata = "\<lparr>meta_width = Some 1000, meta_height = Some 800,
                    meta_format = Some ''jpeg''\<rparr>"
  let ?acc = "\<lparr>latestProcessedAt = 0, processedCount = 0, reports = []\<rparr>"
  note effects = shrinkImage_failure_effects
      [where env = ?env and fs = sample_files and n = ?n and metadata = ?metadata
         and candidate = "[1, 2, 3, 0]" and rate = "1 / 2" and maxOutputWidth = None
         and pngFormat = PNG and sourcePath = "''/in/a.jpg''" and targetPath = "''/out/a.jpg''"
         and fallbackTargetPath = "''/out/a.jpg''" and sourceDir = "''/in''"
         and outputDir = "''/out''" and relative = "''a.jpg''" and sinceDate = 0
         and rest = "[]" and acc = ?acc]
  have tmp: "''/in/a.jpg'' \<noteq> ''/out/a.jpg'' @ ''.tmp''"
    "''/out/a.jpg'' \<noteq> ''/out/a.jpg'' @ ''.tmp''"
    by simp_all
  have given: "sample_files ''/in/a.jpg'' = Some ?n \<and>
      probe ?env (content ?n) = Some ?metadata \<and>
      render ?env (content ?n) (buildPipeline ?metadata (1 / 2) None PNG) = Some [1, 2, 3, 0]"
    by (simp add: sample_env_def sample_files_def)
  have run:
    "shrinkImage ?env ''/in/a.jpg'' ''/out/a.jpg'' ''/out/a.jpg'' (1 / 2) None PNG sample_files
     = (Inl (IOFailure CopyData ''/in/a.jpg''), sample_files)"
    using effects [OF tmp, THEN conjunct1, THEN mp, OF given]
    by (simp add: sample_env_def sample_files_def Let_def fun_eq_iff)
  have entry: "''/in/a.jpg'' = path_join ''/in'' ''a.jpg'' \<and>
      ''/out/a.jpg'' = path_join ''/out'' (primaryRelativePath (getOutputPaths ''a.jpg'' PNG)) \<and>
      ''/out/a.jpg'' = path_join ''/out'' (fallbackRelativePath (getOutputPaths ''a.jpg'' PNG)) \<and>
      sample_files ''/in/a.jpg'' = Some ?n \<and> regular ?n \<and> 0 < modified ?n \<and>
      \<not> fault ?env StatEntry ''/in/a.jpg'' \<and>
      shrinkImage ?env ''/in/a.jpg'' ''/out/a.jpg'' ''/out/a.jpg'' (1 / 2) None PNG sample_files
        = (Inl (IOFailure CopyData ''/in/a.jpg''), sample_files)"
    using run by (simp add: path_defs sample_env_def sample_files_def Let_def)
  have pass:
    "processDirectory ?env ''/in'' ''/out'' 0 (1 / 2) None PNG [''a.jpg''] sample_files
     = (Inr \<lparr>latestProcessedAt = 0, processedCount = 0,
              reports = [Failed ''a.jpg'' (IOFailure CopyData ''/in/a.jpg'')]\<rparr>,
        sample_files)"
    unfolding processDirectory_def
    using effects [OF tmp, THEN conjunct2, THEN conjunct2, THEN spec, THEN spec, THEN mp,
        OF entry]
    by (simp add: io_return_def)
  from effects [OF tmp, THEN conjunct2, THEN conjunct1, THEN spec, THEN spec, THEN mp,
      OF run] run pass
  show ?thesis by (simp add: sample_files_def)
qed

text \<open>
  Claim C9 as stated fails. When the rename of the temporary file fails, \<open>shrinkImage\<close>
  rejects and the candidate stays at the temporary path, where nothing was before. When
  moreover the output directory is the source directory, so that the target of a JPEG is
  the source itself, the source is gone as well.
\<close>

theorem shrinkImage_tmp_left_counterexample:
  "shrinkImage (sample_env [RenameTmp] False) ''/in/a.jpg'' ''/out/a.jpg'' ''/out/a.jpg''
     (1 / 2) None PNG sample_files
   = (Inl (IOFailure RenameTmp ''/in/a.jpg''),
      sample_files(''/out/a.jpg.tmp'' \<mapsto> \<lparr>regular = True, content = [1], modified = 77\<rparr>)) \<and>
   sample_files ''/out/a.jpg.tmp'' = None \<and>
   shrinkImage (sample_env [RenameTmp] False) ''/in/a.jpg'' ''/in/a.jpg'' ''/in/a.jpg''
     (1 / 2) None PNG sample_files
   = (Inl (IOFailure RenameTmp ''/in/a.jpg''),
      sample_files(''/in/a.jpg.tmp'' \<mapsto> \<lparr>regular = True, content = [1], modified = 77\<rparr>,
                   ''/in/a.jpg'' := None)) \<and>
   sample_files ''/in/a.jpg'' \<noteq> None"
  by (simp add: shrinkImage_def io_defs sample_env_def sample_files_def Let_def fun_eq_iff)

subsection \<open>The metadata decision\<close>

lemma runBatchProcess_Inr_iff:
  "runBatchProcess env sourceDir outputDir rate maxOutputWidth pngFormat metadataPath
     forceBaselineWrite sinceOverride entries w = (Inr res, w1) \<longleftrightarrow>
   \<not> fault env ReadMetadataFile metadataPath \<and>
   (\<exists>result fs'.
      processDirectory env sourceDir outputDir
        (determineSince
           (case metadataFile w of Some r \<Rightarrow> lastProcessedAt r | None \<Rightarrow> clock env)
           sinceOverride)
        rate maxOutputWidth pngFormat entries (files w) = (Inr result, fs') \<and>
      w1 = w\<lparr>files := fs'\<rparr> \<and>
      res = \<lparr>processedTotal = processedCount result,
             updatedLastProcessedAt =
               computeUpdatedLastProcessedAt
                 (case metadataFile w of Some r \<Rightarrow> lastProcessedAt r | None \<Rightarrow> clock env)
                 (latestProcessedAt result) (processedCount result) sinceOverride
                 (processedCount result > 0 \<or> metadataFile w = None \<or> forceBaselineWrite),
             shouldWriteMetadata =
               (processedCount result > 0 \<or> metadataFile w = None \<or> forceBaselineWrite)\<rparr>)"
  by (cases "metadataFile w")
     (auto simp: runBatchProcess_def readMetadata_def Let_def split: prod.splits sum.splits)

text \<open>
  Claim C3 (metadata write-eligibility). For a cycle whose pass completes and whose write
  does not fail, the batch driver and the watch cycle persist the record exactly when at
  least one file was processed, or no record existed before the cycle, or the run is
  forced by from-now: then the record written is the new content of the file and one more
  entry of the write log; otherwise the file and the log are as before the cycle. The
  pass itself never touches the file.
\<close>

theorem metadata_write_eligibility:
  "runBatchProcess env sourceDir outputDir rate maxOutputWidth pngFormat metadataPath
     forceBaselineWrite sinceOverride entries w = (Inr res, w1) \<Longrightarrow>
   \<not> fault env WriteMetadataFile metadataPath \<Longrightarrow>
   \<not> processing st \<Longrightarrow> sinceForWatch st = sinceOverride \<Longrightarrow>
   (let eligible = (0 < processedTotal res \<or> metadataFile w = None \<or> forceBaselineWrite);
        written = \<lparr>lastProcessedAt = updatedLastProcessedAt res, lastRate = rate\<rparr>;
        after = (if eligible
                 then w1\<lparr>metadataFile := Some written,
                         metadataWrites := written # metadataWrites w\<rparr>
                 else w1)
    in shouldWriteMetadata res = eligible \<and>
       metadataFile w1 = metadataFile w \<and> metadataWrites w1 = metadataWrites w \<and>
       executeBatch env sourceDir outputDir rate maxOutputWidth pngFormat metadataPath
         forceBaselineWrite sinceOverride entries w = (Inr (), after) \<and>
       snd (cycle env sourceDir outputDir rate maxOutputWidth pngFormat metadataPath
              forceBaselineWrite entries (st, w)) = after)"
proof -
  assume run: "runBatchProcess env sourceDir outputDir rate maxOutputWidth pngFormat
      metadataPath forceBaselineWrite sinceOverride entries w = (Inr res, w1)"
    and ok: "\<not> fault env WriteMetadataFile metadataPath"
    and idle: "\<not> processing st" and since: "sinceForWatch st = sinceOverride"
  from run have should:
    "shouldWriteMetadata res =
       (0 < processedTotal res \<or> metadataFile w = None \<or> forceBaselineWrite)"
    and same: "metadataFile w1 = metadataFile w" "metadataWrites w1 = metadataWrites w"
    by (auto simp: runBatchProcess_Inr_iff)
  from run ok should same show ?thesis
    by (simp add: executeBatch_def cycle_def writeMetadata_def Let_def idle since)
qed

theorem metadata_write_eligibility_witness:
  "executeBatch (sample_env [] False) ''/in'' ''/out'' (1 / 2) None PNG ''/in/.photo-reducer''
     False None [''a.jpg'', ''b.jpg''] (sample_world (Some \<lparr>lastProcessedAt = 9, lastRate = 1\<rparr>))
   = (Inr (), sample_world (Some \<lparr>lastProcessedAt = 9, lastRate = 1\<rparr>)) \<and>
   snd (cycle (sample_env [] False) ''/in'' ''/out'' (1 / 2) None PNG ''/in/.photo-reducer''
     False [''a.jpg'', ''b.jpg'']
     (watch_start None, sample_world (Some \<lparr>lastProcessedAt = 9, lastRate = 1\<rparr>)))
   = sample_world (Some \<lparr>lastProcessedAt = 9, lastRate = 1\<rparr>) \<and>
   executeBatch (sample_env [] False) ''/in'' ''/out'' (1 / 2) None PNG ''/in/.photo-reducer''
     False None [''a.jpg'', ''b.jpg''] (sample_world None)
   = (Inr (),
      \<lparr>files = sample_files,
       metadataFile = Some \<lparr>lastProcessedAt = 77, lastRate = 1 / 2\<rparr>,
       metadataWrites = [\<lparr>lastProcessedAt = 77, lastRate = 1 / 2\<rparr>]\<rparr>)"
proof -
  have ok: "\<not> fault (sample_env [] False) WriteMetadataFile ''/in/.photo-reducer''"
    by (simp add: sample_env_def)
  have idle: "\<not> processing (watch_start None)" "sinceForWatch (watch_start None) = None"
    by (simp_all add: watch_start_def)
  have stored:
    "runBatchProcess (sample_env [] False) ''/in'' ''/out'' (1 / 2) None PNG
       ''/in/.photo-reducer'' False None [''a.jpg'', ''b.jpg'']
       (sample_world (Some \<lparr>lastProcessedAt = 9, lastRate = 1\<rparr>))
     = (Inr \<lparr>processedTotal = 0, updatedLastProcessedAt = 9, shouldWriteMetadata = False\<rparr>,
        sample_world (Some \<lparr>lastProcessedAt = 9, lastRate = 1\<rparr>))"
    by (simp add: runBatchProcess_def readMetadata_def processDirectory_def
        determineSince_def computeUpdatedLastProcessedAt_def io_defs path_defs
        sample_env_def sample_files_def sample_world_def Let_def)
  have fresh:
    "runBatchProcess (sample_env [] False) ''/in'' ''/out'' (1 / 2) None PNG
       ''/in/.photo-reducer'' False None [''a.jpg'', ''b.jpg''] (sample_world None)
     = (Inr \<lparr>processedTotal = 0, updatedLastProcessedAt = 77, shouldWriteMetadata = True\<rparr>,
        sample_world None)"
    by (simp add: runBatchProcess_def readMetadata_def processDirectory_def
        determineSince_def computeUpdatedLastProcessedAt_def io_defs path_defs
        sample_env_def sample_files_def sample_world_def Let_def)
  from metadata_write_eligibility [OF stored ok idle]
       metadata_write_eligibility [OF fresh ok idle]
  show ?thesis
    by (simp add: Let_def sample_world_def)
qed

lemma maxDate_ge: "a \<le> maxDate a b"
  by (simp add: maxDate_def)

text \<open>
  Claim C2 (baseline monotonicity), as the code has it. Let a record \<open>r\<close> be stored when a
  cycle starts and let the pass complete. The cycle writes when it processed a file or is
  forced by from-now, and then the batch driver and the watch cycle (when its write does
  not fail) store the instant the pass computed; otherwise the record stays. The instant
  stored after the cycle is not earlier than the one stored before exactly when the cycle
  processed at least one file, or is not forced, or its override is not earlier than the
  stored instant. A forced cycle that processes no file stores the override it ran with,
  whatever the record holds (and the stored instant again when it has no override); in a
  watch that is the current \<open>sinceForWatch\<close>, which a cycle that writes advances, when
  there is one, to the instant it stored.
\<close>

theorem lastProcessedAt_non_decreasing:
  assumes run:
    "runBatchProcess env sourceDir outputDir rate maxOutputWidth pngFormat metadataPath
       forceBaselineWrite sinceOverride entries w = (Inr res, w1)"
    and stored: "metadataFile w = Some r"
    and idle: "\<not> processing st"
    and since: "sinceForWatch st = sinceOverride"
  shows
   "(let recorded = lastProcessedAt r;
         writes = (0 < processedTotal res \<or> forceBaselineWrite);
         monotone = (0 < processedTotal res \<or> \<not> forceBaselineWrite \<or>
                     (\<forall>t. sinceOverride = Some t \<longrightarrow> recorded \<le> t));
         after = (if writes
                  then \<lparr>lastProcessedAt = updatedLastProcessedAt res, lastRate = rate\<rparr>
                  else r)
     in (recorded \<le> updatedLastProcessedAt res \<longleftrightarrow> monotone) \<and>
        (recorded \<le> lastProcessedAt after \<longleftrightarrow> monotone) \<and>
        (processedTotal res = 0 \<and> forceBaselineWrite \<longrightarrow>
           updatedLastProcessedAt res
             = (case sinceOverride of Some t \<Rightarrow> t | None \<Rightarrow> recorded)) \<and>
        (\<forall>w'. executeBatch env sourceDir outputDir rate maxOutputWidth pngFormat metadataPath
                forceBaselineWrite sinceOverride entries w = (Inr (), w') \<longrightarrow>
              metadataFile w' = Some after) \<and>
        metadataFile
          (snd (cycle env sourceDir outputDir rate maxOutputWidth pngFormat metadataPath
                  forceBaselineWrite entries (st, w)))
          = Some (if fault env WriteMetadataFile metadataPath then r else after) \<and>
        sinceForWatch
          (fst (cycle env sourceDir outputDir rate maxOutputWidth pngFormat metadataPath
                  forceBaselineWrite entries (st, w)))
          = (if writes \<and> \<not> fault env WriteMetadataFile metadataPath \<and> sinceOverride \<noteq> None
             then Some (updatedLastProcessedAt res) else sinceOverride))"
proof -
  from run stored have same: "metadataFile w1 = Some r"
    by (auto simp: runBatchProcess_Inr_iff)
  from run stored
  have should: "shouldWriteMetadata res = (0 < processedTotal res \<or> forceBaselineWrite)"
    by (auto simp: runBatchProcess_Inr_iff)
  from run stored
  have "\<exists>latest. updatedLastProcessedAt res =
      computeUpdatedLastProcessedAt (lastProcessedAt r) latest (processedTotal res)
        sinceOverride (0 < processedTotal res \<or> forceBaselineWrite)"
    by (auto simp: runBatchProcess_Inr_iff)
  then obtain latest where updated: "updatedLastProcessedAt res =
      computeUpdatedLastProcessedAt (lastProcessedAt r) latest (processedTotal res)
        sinceOverride (0 < processedTotal res \<or> forceBaselineWrite)" ..
  have le: "lastProcessedAt r \<le> updatedLastProcessedAt res \<longleftrightarrow>
      0 < processedTotal res \<or> \<not> forceBaselineWrite \<or>
      (\<forall>t. sinceOverride = Some t \<longrightarrow> lastProcessedAt r \<le> t)"
    unfolding updated
    by (cases sinceOverride) (auto simp: computeUpdatedLastProcessedAt_def maxDate_ge)
  have unwritten: "\<not> (0 < processedTotal res \<or> forceBaselineWrite) \<Longrightarrow>
      0 < processedTotal res \<or> \<not> forceBaselineWrite \<or>
      (\<forall>t. sinceOverride = Some t \<longrightarrow> lastProcessedAt r \<le> t)"
    by simp
  have zero: "processedTotal res = 0 \<and> forceBaselineWrite \<longrightarrow>
      updatedLastProcessedAt res
        = (case sinceOverride of Some t \<Rightarrow> t | None \<Rightarrow> lastProcessedAt r)"
    unfolding updated
    by (simp add: computeUpdatedLastProcessedAt_def)
  have batch:
    "\<forall>w'. executeBatch env sourceDir outputDir rate maxOutputWidth pngFormat metadataPath
            forceBaselineWrite sinceOverride entries w = (Inr (), w') \<longrightarrow>
          metadataFile w' =
            Some (if 0 < processedTotal res \<or> forceBaselineWrite
                  then \<lparr>lastProcessedAt = updatedLastProcessedAt res, lastRate = rate\<rparr>
                  else r)"
    using run same should
    by (auto simp: executeBatch_def writeMetadata_def Let_def split: if_splits)
  have watch:
    "metadataFile
       (snd (cycle env sourceDir outputDir rate maxOutputWidth pngFormat metadataPath
               forceBaselineWrite entries (st, w)))
     = Some (if fault env WriteMetadataFile metadataPath then r
             else if 0 < processedTotal res \<or> forceBaselineWrite
             then \<lparr>lastProcessedAt = updatedLastProcessedAt res, lastRate = rate\<rparr>
             else r)"
    using run same should idle since
    by (auto simp: cycle_def writeMetadata_def Let_def split: if_splits)
  have advanced:
    "sinceForWatch
       (fst (cycle env sourceDir outputDir rate maxOutputWidth pngFormat metadataPath
               forceBaselineWrite entries (st, w)))
     = (if (0 < processedTotal res \<or> forceBaselineWrite) \<and>
           \<not> fault env WriteMetadataFile metadataPath \<and> sinceOverride \<noteq> None
        then Some (updatedLastProcessedAt res) else sinceOverride)"
    using run should idle since
    by (auto simp: cycle_def writeMetadata_def Let_def split: if_splits)
  from le unwritten zero batch watch advanced show ?thesis
    by (simp add: Let_def)
qed

theorem lastProcessedAt_non_decreasing_witness:
  "executeBatch (sample_env [] False) ''/in'' ''/out'' (1 / 2) None PNG ''/in/.photo-reducer''
     (forceBaselineWriteOf True 3) (effectiveSinceOverride True 3 None) [''a.jpg'', ''b.jpg'']
     (sample_world (Some \<lparr>lastProcessedAt = 7, lastRate = 1\<rparr>))
   = (Inr (),
      \<lparr>files = sample_files(
          ''/out/a.jpg'' \<mapsto> \<lparr>regular = True, content = [1], modified = 77\<rparr>,
          ''/out/b.jpg'' \<mapsto> \<lparr>regular = True, content = [4], modified = 77\<rparr>),
       metadataFile = Some \<lparr>lastProcessedAt = 9, lastRate = 1 / 2\<rparr>,
       metadataWrites = [\<lparr>lastProcessedAt = 9, lastRate = 1 / 2\<rparr>]\<rparr>) \<and>
   (7 :: int) \<le> 9 \<and>
   metadataFile
     (snd (cycle (sample_env [] False) ''/in'' ''/out'' (1 / 2) None PNG ''/in/.photo-reducer''
             (forceBaselineWriteOf True 3) [''a.jpg'', ''b.jpg'']
        (cycle (sample_env [] False) ''/in'' ''/out'' (1 / 2) None PNG ''/in/.photo-reducer''
             (forceBaselineWriteOf True 3) [''a.jpg'', ''b.jpg'']
           (watch_start (effectiveSinceOverride True 3 None),
            sample_world (Some \<lparr>lastProcessedAt = 2, lastRate = 1\<rparr>)))))
   = Some \<lparr>lastProcessedAt = 9, lastRate = 1 / 2\<rparr>"
proof -
  let ?w = "sample_world (Some \<lparr>lastProcessedAt = 7, lastRate = 1\<rparr>)"
  let ?fs = "sample_files(
          ''/out/a.jpg'' \<mapsto> \<lparr>regular = True, content = [1], modified = 77\<rparr>,
          ''/out/b.jpg'' \<mapsto> \<lparr>regular = True, content = [4], modified = 77\<rparr>)"
  let ?res = "\<lparr>processedTotal = 2, updatedLastProcessedAt = 9, shouldWriteMetadata = True\<rparr>"
  have run:
    "runBatchProcess (sample_env [] False) ''/in'' ''/out'' (1 / 2) None PNG
       ''/in/.photo-reducer'' (forceBaselineWriteOf True 3) (effectiveSinceOverride True 3 None)
       [''a.jpg'', ''b.jpg''] ?w
     = (Inr ?res, ?w\<lparr>files := ?fs\<rparr>)"
    by (simp add: runBatchProcess_def readMetadata_def processDirectory_def shrinkImage_def
        determineSince_def computeUpdatedLastProcessedAt_def maxDate_def io_defs path_defs
        forceBaselineWriteOf_def effectiveSinceOverride_def
        sample_env_def sample_files_def sample_world_def Let_def fun_eq_iff)
  have stored: "metadataFile ?w = Some \<lparr>lastProcessedAt = 7, lastRate = 1\<rparr>"
    by (simp add: sample_world_def)
  have idle: "\<not> processing (watch_start (effectiveSinceOverride True 3 None))"
    "sinceForWatch (watch_start (effectiveSinceOverride True 3 None))
       = effectiveSinceOverride True 3 None"
    by (simp_all add: watch_start_def)
  have batch:
    "executeBatch (sample_env [] False) ''/in'' ''/out'' (1 / 2) None PNG
       ''/in/.photo-reducer'' (forceBaselineWriteOf True 3) (effectiveSinceOverride True 3 None)
       [''a.jpg'', ''b.jpg''] ?w
     = (Inr (),
        \<lparr>files = ?fs, metadataFile = Some \<lparr>lastProcessedAt = 9, lastRate = 1 / 2\<rparr>,
         metadataWrites = [\<lparr>lastProcessedAt = 9, lastRate = 1 / 2\<rparr>]\<rparr>)"
    unfolding executeBatch_def run
    by (simp add: writeMetadata_def sample_env_def sample_world_def Let_def)
  let ?st1 = "\<lparr>processing = False, sinceForWatch = Some 9\<rparr>"
  let ?w1 = "\<lparr>files = ?fs, metadataFile = Some \<lparr>lastProcessedAt = 9, lastRate = 1 / 2\<rparr>,
              metadataWrites = [\<lparr>lastProcessedAt = 9, lastRate = 1 / 2\<rparr>]\<rparr>"
  let ?res1 = "\<lparr>processedTotal = 0, updatedLastProcessedAt = 9, shouldWriteMetadata = True\<rparr>"
  have first:
    "cycle (sample_env [] False) ''/in'' ''/out'' (1 / 2) None PNG ''/in/.photo-reducer''
       (forceBaselineWriteOf True 3) [''a.jpg'', ''b.jpg'']
       (watch_start (effectiveSinceOverride True 3 None),
        sample_world (Some \<lparr>lastProcessedAt = 2, lastRate = 1\<rparr>))
     = (?st1, ?w1)"
    by (simp add: cycle_def runBatchProcess_def readMetadata_def processDirectory_def
        shrinkImage_def writeMetadata_def determineSince_def computeUpdatedLastProcessedAt_def
        maxDate_def io_defs path_defs forceBaselineWriteOf_def effectiveSinceOverride_def
        watch_start_def sample_env_def sample_files_def sample_world_def Let_def fun_eq_iff)
  have run1:
    "runBatchProcess (sample_env [] False) ''/in'' ''/out'' (1 / 2) None PNG
       ''/in/.photo-reducer'' (forceBaselineWriteOf True 3) (Some 9) [''a.jpg'', ''b.jpg''] ?w1
     = (Inr ?res1, ?w1)"
    by (simp add: runBatchProcess_def readMetadata_def processDirectory_def
        determineSince_def computeUpdatedLastProcessedAt_def io_defs path_defs
        forceBaselineWriteOf_def sample_env_def sample_files_def Let_def)
  have stored1: "metadataFile ?w1 = Some \<lparr>lastProcessedAt = 9, lastRate = 1 / 2\<rparr>"
    by simp
  have idle1: "\<not> processing ?st1" "sinceForWatch ?st1 = Some 9"
    by simp_all
  have second:
    "metadataFile
       (snd (cycle (sample_env [] False) ''/in'' ''/out'' (1 / 2) None PNG
               ''/in/.photo-reducer'' (forceBaselineWriteOf True 3) [''a.jpg'', ''b.jpg'']
               (?st1, ?w1)))
     = Some \<lparr>lastProcessedAt = 9, lastRate = 1 / 2\<rparr>"
    using lastProcessedAt_non_decreasing [OF run1 stored1 idle1]
    by (simp add: Let_def forceBaselineWriteOf_def sample_env_def)
  from lastProcessedAt_non_decreasing [OF run stored idle] batch second
  show ?thesis
    unfolding first by simp
qed

text \<open>
  Claim C2 as stated fails: a batch run with \<open>--from-now\<close> at instant 50, over a directory
  whose record holds the later instant 60 (the modification time of a file processed
  before) and that has no file newer than 50, processes nothing and stores 50.
\<close>

theorem from_now_regresses_baseline_counterexample:
  "executeBatch (sample_env [] False) ''/in'' ''/out'' (1 / 2) None PNG ''/in/.photo-reducer''
     (forceBaselineWriteOf True 50) (effectiveSinceOverride True 50 None)
     [''a.jpg'', ''b.jpg''] (sample_world (Some \<lparr>lastProcessedAt = 60, lastRate = 1\<rparr>))
   = (Inr (),
      \<lparr>files = sample_files,
       metadataFile = Some \<lparr>lastProcessedAt = 50, lastRate = 1 / 2\<rparr>,
       metadataWrites = [\<lparr>lastProcessedAt = 50, lastRate = 1 / 2\<rparr>]\<rparr>) \<and>
   (50 :: int) < 60"
  by (simp add: executeBatch_def runBatchProcess_def readMetadata_def processDirectory_def
      writeMetadata_def determineSince_def computeUpdatedLastProcessedAt_def io_defs path_defs
      forceBaselineWriteOf_def effectiveSinceOverride_def
      sample_env_def sample_files_def sample_world_def Let_def)

text \<open>
  Claim C6 (idle watch cycles do not rewrite the record) holds for a watch that is not
  forced: with a record in place and no file processed, the cycle writes nothing.
\<close>

lemma idle_cycle_without_force_writes_nothing:
  "runBatchProcess env sourceDir outputDir rate maxOutputWidth pngFormat metadataPath
     False (sinceForWatch st) entries w = (Inr res, w1) \<Longrightarrow>
   processedTotal res = 0 \<Longrightarrow> metadataFile w = Some r \<Longrightarrow> \<not> processing st \<Longrightarrow>
   cycle env sourceDir outputDir rate maxOutputWidth pngFormat metadataPath False entries
     (st, w) = (st, w1) \<and>
   metadataFile w1 = metadataFile w \<and> metadataWrites w1 = metadataWrites w"
proof -
  assume run: "runBatchProcess env sourceDir outputDir rate maxOutputWidth pngFormat
      metadataPath False (sinceForWatch st) entries w = (Inr res, w1)"
    and none: "processedTotal res = 0" and stored: "metadataFile w = Some r"
    and idle: "\<not> processing st"
  from run none stored have no: "\<not> shouldWriteMetadata res"
    and same: "metadataFile w1 = metadataFile w" "metadataWrites w1 = metadataWrites w"
    by (auto simp: runBatchProcess_Inr_iff)
  from idle have "st\<lparr>processing := False\<rparr> = st"
    by (cases st) simp
  with run no idle same show ?thesis
    by (simp add: cycle_def Let_def)
qed

text \<open>
  Claim C6 on a watch started with \<open>--from-now\<close> at instant 50, over a directory whose
  record holds 20 and that has no file newer than 50: the first cycle processes nothing
  and stores the baseline 50; the second cycle, again idle and with the record in place,
  writes the record once more.
\<close>

theorem from_now_watch_idle_cycle_rewrites:
  "metadataWrites
     (snd (cycle (sample_env [] False) ''/in'' ''/out'' (1 / 2) None PNG ''/in/.photo-reducer''
             (forceBaselineWriteOf True 50) [''a.jpg'', ''b.jpg'']
        (cycle (sample_env [] False) ''/in'' ''/out'' (1 / 2) None PNG ''/in/.photo-reducer''
             (forceBaselineWriteOf True 50) [''a.jpg'', ''b.jpg'']
           (watch_start (effectiveSinceOverride True 50 None),
            sample_world (Some \<lparr>lastProcessedAt = 20, lastRate = 1\<rparr>)))))
   = [\<lparr>lastProcessedAt = 50, lastRate = 1 / 2\<rparr>, \<lparr>lastProcessedAt = 50, lastRate = 1 / 2\<rparr>]"
  by (simp add: cycle_def runBatchProcess_def readMetadata_def processDirectory_def
      writeMetadata_def determineSince_def computeUpdatedLastProcessedAt_def io_defs path_defs
      forceBaselineWriteOf_def effectiveSinceOverride_def watch_start_def
      sample_env_def sample_files_def sample_world_def Let_def)

subsection \<open>The directory pass\<close>

lemma fallbackRelativePath_getOutputPaths:
  "fallbackRelativePath (getOutputPaths relative pngFormat) = relative"
  by (simp add: getOutputPaths_def Let_def)

text \<open>\<open>shrinkImage\<close> writes to its three output paths only.\<close>

lemma shrinkImage_frame:
  assumes run: "shrinkImage env sourcePath targetPath fallbackTargetPath rate maxOutputWidth
      pngFormat fs = (x, fs')"
    and other: "p \<noteq> targetPath" "p \<noteq> targetPath @ ''.tmp''" "p \<noteq> fallbackTargetPath"
  shows "fs' p = fs p"
proof (cases x)
  case (Inl e)
  with run have "shrinkImage env sourcePath targetPath fallbackTargetPath rate maxOutputWidth
      pngFormat fs = (Inl e, fs')"
    by simp
  with other show ?thesis
    unfolding shrinkImage_def Let_def
    apply (simp only: io_if_iff io_Inl_iffs io_Inr_iffs)
    apply (elim disjE conjE exE)
    apply (auto simp: afterFailedWrite_other split: if_splits)
    done
next
  case (Inr res)
  with run have "shrinkImage env sourcePath targetPath fallbackTargetPath rate maxOutputWidth
      pngFormat fs = (Inr res, fs')"
    by simp
  with other show ?thesis
    by (auto simp: shrinkImage_def io_Inr_iffs Let_def split: if_splits)
qed

text \<open>
  A rejection of \<open>shrinkImage\<close> for one entry is caught: the loop prints the error line and
  goes on with the remaining entries, the counters as they were.
\<close>

lemma processEntries_contains_shrink_failure:
  assumes "fs (path_join sourceDir relative) = Some n" "regular n" "sinceDate < modified n"
    and "\<not> fault env StatEntry (path_join sourceDir relative)"
    and "shrinkImage env (path_join sourceDir relative)
           (path_join outputDir (primaryRelativePath (getOutputPaths relative pngFormat)))
           (path_join outputDir relative) rate maxOutputWidth pngFormat fs = (Inl e, fs1)"
  shows "processEntries env sourceDir outputDir sinceDate rate maxOutputWidth pngFormat
           (relative # rest) acc fs =
         processEntries env sourceDir outputDir sinceDate rate maxOutputWidth pngFormat
           rest (acc\<lparr>reports := reports acc @ [Failed relative e]\<rparr>) fs1"
  using assms
  by (simp add: Let_def io_bind_def stat_def guarded_def fallbackRelativePath_getOutputPaths)

lemma processEntries_skips:
  assumes "fs (path_join sourceDir relative) = Some n"
    and "\<not> (regular n \<and> sinceDate < modified n)"
    and "\<not> fault env StatEntry (path_join sourceDir relative)"
  shows "processEntries env sourceDir outputDir sinceDate rate maxOutputWidth pngFormat
           (relative # rest) acc fs =
         processEntries env sourceDir outputDir sinceDate rate maxOutputWidth pngFormat
           rest acc fs"
  using assms
  by (auto simp: Let_def io_bind_def stat_def guarded_def)

lemma processEntries_counts_success:
  assumes "fs (path_join sourceDir relative) = Some n" "regular n" "sinceDate < modified n"
    and "\<not> fault env StatEntry (path_join sourceDir relative)"
    and "shrinkImage env (path_join sourceDir relative)
           (path_join outputDir (primaryRelativePath (getOutputPaths relative pngFormat)))
           (path_join outputDir relative) rate maxOutputWidth pngFormat fs = (Inr result, fs1)"
  shows "processEntries env sourceDir outputDir sinceDate rate maxOutputWidth pngFormat
           (relative # rest) acc fs =
         processEntries env sourceDir outputDir sinceDate rate maxOutputWidth pngFormat
           rest
           (acc\<lparr>processedCount := processedCount acc + 1,
                latestProcessedAt :=
                  (if modified n > latestProcessedAt acc then modified n
                   else latestProcessedAt acc),
                reports := reports acc @ [Processed relative result]\<rparr>)
           fs1"
  using assms
  by (simp add: Let_def io_bind_def stat_def guarded_def fallbackRelativePath_getOutputPaths)

lemma processEntries_needs_stat:
  assumes "processEntries env sourceDir outputDir sinceDate rate maxOutputWidth pngFormat
             (relative # rest) acc fs = (Inr res, fs')"
  shows "\<not> fault env StatEntry (path_join sourceDir relative) \<and>
         (\<exists>n. fs (path_join sourceDir relative) = Some n)"
  using assms
  by (auto simp: Let_def io_bind_def stat_def guarded_def io_throw_def
           split: if_splits option.splits)

text \<open>
  The files a completed pass handed to \<open>shrinkImage\<close>, when no source file is an output
  path of the pass: the entries that are regular files modified after the baseline.
\<close>

lemma processEntries_reported:
  assumes "processEntries env sourceDir outputDir sinceDate rate maxOutputWidth pngFormat
             es acc fs = (Inr res, fs')"
    and "\<forall>r\<in>set es. \<forall>r'\<in>set es.
           path_join sourceDir r \<notin>
             {path_join outputDir (primaryRelativePath (getOutputPaths r' pngFormat)),
              path_join outputDir (primaryRelativePath (getOutputPaths r' pngFormat)) @ ''.tmp'',
              path_join outputDir r'}"
  shows "reportedFile ` set (reports res) =
           reportedFile ` set (reports acc) \<union>
           {r \<in> set es. \<exists>n. fs (path_join sourceDir r) = Some n \<and> regular n \<and>
                              sinceDate < modified n}"
  using assms
proof (induction es arbitrary: acc fs)
  case Nil
  then show ?case by (simp add: io_return_def)
next
  case (Cons r rest)
  let ?src = "path_join sourceDir r"
  let ?tgt = "path_join outputDir (primaryRelativePath (getOutputPaths r pngFormat))"
  let ?sel = "\<lambda>g q. \<exists>n. g (path_join sourceDir q) = Some n \<and> regular n \<and> sinceDate < modified n"
  from Cons.prems(2) have disj_rest:
    "\<forall>r\<in>set rest. \<forall>r'\<in>set rest.
       path_join sourceDir r \<notin>
         {path_join outputDir (primaryRelativePath (getOutputPaths r' pngFormat)),
          path_join outputDir (primaryRelativePath (getOutputPaths r' pngFormat)) @ ''.tmp'',
          path_join outputDir r'}"
    by simp
  from Cons.prems(2) have untouched:
    "\<forall>q\<in>set (r # rest). path_join sourceDir q \<noteq> ?tgt \<and>
        path_join sourceDir q \<noteq> ?tgt @ ''.tmp'' \<and>
        path_join sourceDir q \<noteq> path_join outputDir r"
    by simp
  from processEntries_needs_stat [OF Cons.prems(1)] obtain n
    where ok: "\<not> fault env StatEntry ?src" and n: "fs ?src = Some n"
    by blast
  show ?case
  proof (cases "regular n \<and> sinceDate < modified n")
    case False
    from Cons.prems(1) have "processEntries env sourceDir outputDir sinceDate rate
        maxOutputWidth pngFormat rest acc fs = (Inr res, fs')"
      by (simp only: processEntries_skips [where fs = fs, OF n False ok])
    from Cons.IH [OF this disj_rest] False n show ?thesis
      by auto
  next
    case True
    then have reg: "regular n" and newer: "sinceDate < modified n"
      by simp_all
    obtain x fs1 where shrink: "shrinkImage env ?src ?tgt (path_join outputDir r) rate
        maxOutputWidth pngFormat fs = (x, fs1)"
      by (cases "shrinkImage env ?src ?tgt (path_join outputDir r) rate maxOutputWidth
        pngFormat fs") auto
    have same: "?sel fs1 q = ?sel fs q" if "q \<in> set (r # rest)" for q
    proof -
      from untouched that have "fs1 (path_join sourceDir q) = fs (path_join sourceDir q)"
        by (intro shrinkImage_frame [OF shrink]) auto
      then show ?thesis by simp
    qed
    obtain acc1 where rec: "processEntries env sourceDir outputDir sinceDate rate
        maxOutputWidth pngFormat rest acc1 fs1 = (Inr res, fs')"
      and acc1: "reportedFile ` set (reports acc1) = insert r (reportedFile ` set (reports acc))"
    proof (cases x)
      case (Inl e)
      with shrink have failed: "shrinkImage env ?src ?tgt (path_join outputDir r) rate
          maxOutputWidth pngFormat fs = (Inl e, fs1)"
        by simp
      from Cons.prems(1)
      have "processEntries env sourceDir outputDir sinceDate rate maxOutputWidth pngFormat
          rest (acc\<lparr>reports := reports acc @ [Failed r e]\<rparr>) fs1 = (Inr res, fs')"
        by (simp only:
            processEntries_contains_shrink_failure [where fs = fs, OF n reg newer ok failed])
      then show ?thesis
        by (rule that) simp
    next
      case (Inr result)
      with shrink have committed: "shrinkImage env ?src ?tgt (path_join outputDir r) rate
          maxOutputWidth pngFormat fs = (Inr result, fs1)"
        by simp
      from Cons.prems(1)
      have "processEntries env sourceDir outputDir sinceDate rate maxOutputWidth pngFormat
          rest
          (acc\<lparr>processedCount := processedCount acc + 1,
               latestProcessedAt :=
                 (if modified n > latestProcessedAt acc then modified n
                  else latestProcessedAt acc),
               reports := reports acc @ [Processed r result]\<rparr>)
          fs1 = (Inr res, fs')"
        by (simp only: processEntries_counts_success [where fs = fs, OF n reg newer ok committed])
      then show ?thesis
        by (rule that) simp
    qed
    from Cons.IH [OF rec disj_rest] have
      "reportedFile ` set (reports res) =
         reportedFile ` set (reports acc1) \<union> {q \<in> set rest. ?sel fs1 q}" .
    also have "{q \<in> set rest. ?sel fs1 q} = {q \<in> set rest. ?sel fs q}"
      using same by auto
    finally show ?thesis
      using acc1 True n by auto
  qed
qed

text \<open>
  Claim C5 (strict-greater-than selection). In a pass that completes and whose output
  paths are not source files, an enumerated regular file is handed to \<open>shrinkImage\<close> (and
  reported, as processed or as failed) exactly when its modification time is strictly
  greater than the baseline: a file modified at the baseline is left out, one modified any
  time after it is taken.
\<close>

theorem strict_greater_than_selection:
  "processDirectory env sourceDir outputDir sinceDate rate maxOutputWidth pngFormat entries fs
     = (Inr res, fs') \<Longrightarrow>
   \<forall>r\<in>set entries. \<forall>r'\<in>set entries.
      path_join sourceDir r \<notin>
        {path_join outputDir (primaryRelativePath (getOutputPaths r' pngFormat)),
         path_join outputDir (primaryRelativePath (getOutputPaths r' pngFormat)) @ ''.tmp'',
         path_join outputDir r'} \<Longrightarrow>
   relative \<in> set entries \<Longrightarrow>
   fs (path_join sourceDir relative) = Some n \<Longrightarrow> regular n \<Longrightarrow>
   (relative \<in> reportedFile ` set (reports res)) = (sinceDate < modified n)"
proof -
  assume run: "processDirectory env sourceDir outputDir sinceDate rate maxOutputWidth
      pngFormat entries fs = (Inr res, fs')"
    and apart: "\<forall>r\<in>set entries. \<forall>r'\<in>set entries.
      path_join sourceDir r \<notin>
        {path_join outputDir (primaryRelativePath (getOutputPaths r' pngFormat)),
         path_join outputDir (primaryRelativePath (getOutputPaths r' pngFormat)) @ ''.tmp'',
         path_join outputDir r'}"
    and entry: "relative \<in> set entries"
    and node: "fs (path_join sourceDir relative) = Some n" "regular n"
  from run have "processEntries env sourceDir outputDir sinceDate rate maxOutputWidth
      pngFormat entries \<lparr>latestProcessedAt = sinceDate, processedCount = 0, reports = []\<rparr> fs
      = (Inr res, fs')"
    by (simp add: processDirectory_def)
  from processEntries_reported [OF this apart] entry node show ?thesis
    by auto
qed

theorem strict_greater_than_selection_witness:
  "processDirectory (sample_env [] False) ''/in'' ''/out'' 5 (1 / 2) None PNG
     [''a.jpg'', ''b.jpg''] sample_files
   = (Inr \<lparr>latestProcessedAt = 9, processedCount = 1,
           reports = [Processed ''b.jpg''
             \<lparr>originalSize = 4, optimizedSize = 1, writtenPath = ''/out/b.jpg''\<rparr>]\<rparr>,
      sample_files(''/out/b.jpg'' \<mapsto> \<lparr>regular = True, content = [4], modified = 77\<rparr>)) \<and>
   sample_files ''/in/a.jpg'' = Some \<lparr>regular = True, content = [1, 2, 3], modified = 5\<rparr> \<and>
   sample_files ''/in/b.jpg'' = Some \<lparr>regular = True, content = [4, 5, 6, 7], modified = 9\<rparr>"
proof -
  let ?res = "\<lparr>latestProcessedAt = 9, processedCount = 1,
           reports = [Processed ''b.jpg''
             \<lparr>originalSize = 4, optimizedSize = 1, writtenPath = ''/out/b.jpg''\<rparr>]\<rparr>"
  have run:
    "processDirectory (sample_env [] False) ''/in'' ''/out'' 5 (1 / 2) None PNG
       [''a.jpg'', ''b.jpg''] sample_files
     = (Inr ?res,
        sample_files(''/out/b.jpg'' \<mapsto> \<lparr>regular = True, content = [4], modified = 77\<rparr>))"
    by (simp add: processDirectory_def shrinkImage_def io_defs path_defs
        sample_env_def sample_files_def Let_def fun_eq_iff)
  have apart: "\<forall>r\<in>set [''a.jpg'', ''b.jpg'']. \<forall>r'\<in>set [''a.jpg'', ''b.jpg''].
      path_join ''/in'' r \<notin>
        {path_join ''/out'' (primaryRelativePath (getOutputPaths r' PNG)),
         path_join ''/out'' (primaryRelativePath (getOutputPaths r' PNG)) @ ''.tmp'',
         path_join ''/out'' r'}"
    by (simp add: path_defs Let_def)
  have a: "sample_files (path_join ''/in'' ''a.jpg'')
      = Some \<lparr>regular = True, content = [1, 2, 3], modified = 5\<rparr>"
    and b: "sample_files (path_join ''/in'' ''b.jpg'')
      = Some \<lparr>regular = True, content = [4, 5, 6, 7], modified = 9\<rparr>"
    by (simp_all add: sample_files_def path_join_def)
  have "(''a.jpg'' \<in> reportedFile ` set (reports ?res)) = ((5::int) < 5)"
    using strict_greater_than_selection [OF run apart _ a] by simp
  moreover have "(''b.jpg'' \<in> reportedFile ` set (reports ?res)) = ((5::int) < 9)"
    using strict_greater_than_selection [OF run apart _ b] by simp
  ultimately show ?thesis
    using run a b by (simp add: path_join_def)
qed

text \<open>
  Claim C4 (per-file error containment) on a pass whose first entry can no longer be
  read by \<open>stat\<close> (the file was removed after the enumeration): the rejection of the \<open>stat\<close>
  at the head of the loop is outside the \<open>try\<close>, so the whole pass rejects, and the second
  entry, a file newer than the baseline, is never processed.
\<close>

theorem stat_failure_aborts_pass:
  "processDirectory (sample_env [] False) ''/in'' ''/out'' 0 (1 / 2) None PNG
     [''gone.jpg'', ''a.jpg''] sample_files
   = (Inl (ENOENT ''/in/gone.jpg''), sample_files)"
  by (simp add: processDirectory_def io_defs path_defs sample_env_def sample_files_def Let_def)

end
